theory Spec2Isabelle
  imports Complex_Main "HOL-Library.Word"
begin

section \<open>JavaScript strings\<close>

text \<open>
  A JavaScript string is a sequence of UTF-16 code units, and the regular expressions of
  the program (none carries the \<open>u\<close> flag) work on code units.  The keycap glyphs of the
  menu are three code units each (digit, U+FE0F, U+20E3); the glyph for ten is the
  surrogate pair D83D DD1F.  \<open>js\<close> turns an ASCII literal into such a string.
\<close>

type_synonym jschar = "16 word"
type_synonym jsstring = "jschar list"

definition js :: "string \<Rightarrow> jsstring" where
  "js s = map of_char s"

definition isDigit :: "jschar \<Rightarrow> bool" where
  "isDigit c = (0x30 \<le> c \<and> c \<le> 0x39)"

definition digitValue :: "jschar \<Rightarrow> nat" where
  "digitValue c = unat c - 48"

definition digitChar :: "nat \<Rightarrow> jschar" where
  "digitChar d = of_nat (48 + d)"

text \<open>\<open>parseInt(clean, 10)\<close> on a non-empty string of ASCII digits.  The result is an exact
  natural number here; the program's doubles agree with it below \<open>2^53\<close>.\<close>

definition parseDecimal :: "jsstring \<Rightarrow> nat" where
  "parseDecimal ds = foldl (\<lambda>acc c. 10 * acc + digitValue c) 0 ds"

text \<open>\<open>Number.prototype.toString()\<close> on a non-negative integer: all its digits, as
  JavaScript prints an integer below \<open>10^21\<close>.\<close>

fun toString :: "nat \<Rightarrow> jsstring" where
  "toString n = (if n < 10 then [digitChar n] else toString (n div 10) @ [digitChar (n mod 10)])"

declare toString.simps [simp del]

text \<open>
  White space as \<open>String.prototype.trim\<close> and the class \<open>\s\<close> of a regular expression
  see it: the ECMAScript WhiteSpace and LineTerminator code units.
\<close>

definition isWhiteSpace :: "jschar \<Rightarrow> bool" where
  "isWhiteSpace c =
    (c = 0x09 \<or> c = 0x0A \<or> c = 0x0B \<or> c = 0x0C \<or> c = 0x0D \<or> c = 0x20 \<or> c = 0xA0 \<or>
     c = 0x1680 \<or> (0x2000 \<le> c \<and> c \<le> 0x200A) \<or> c = 0x2028 \<or> c = 0x2029 \<or>
     c = 0x202F \<or> c = 0x205F \<or> c = 0x3000 \<or> c = 0xFEFF)"

definition trim :: "jsstring \<Rightarrow> jsstring" where
  "trim s = rev (dropWhile isWhiteSpace (rev (dropWhile isWhiteSpace s)))"

text \<open>
  \<open>String.prototype.toLowerCase\<close> where the program compares the result with a keyword
  (\<open>cancelar\<close>, \<open>volver\<close>, the commands of the operator).  The case table is the
  runtime's, not the program's: the model has it for Basic Latin and Latin-1 (A to Z, and
  U+00C0 to U+00DE without the multiplication sign), where it is one code unit to one code
  unit, and leaves every other code unit as it is.  On a text of Latin-1 this is the
  runtime's function; on any text the comparison with one of the keywords comes out as in
  the runtime, because the only code units outside Latin-1 that lower-case to a letter of
  Basic Latin are U+212A, which gives \<open>k\<close>, a letter of no keyword, and U+0130, which
  gives \<open>i\<close> followed by U+0307.  Where the program searches the lower-cased text
  (\<open>containsOfertas\<close>) the table is a parameter, \<open>unicodeLower\<close> of the environment.
\<close>

definition lowerUnit :: "jschar \<Rightarrow> jschar" where
  "lowerUnit c =
    (if (0x41 \<le> c \<and> c \<le> 0x5A) \<or> (0xC0 \<le> c \<and> c \<le> 0xDE \<and> c \<noteq> 0xD7) then c + 0x20 else c)"

definition toLowerCase :: "jsstring \<Rightarrow> jsstring" where
  "toLowerCase s = map lowerUnit s"

text \<open>
  \<open>str.split(re)\<close> for a separator \<open>re\<close> that matches one or more code units of a class
  (\<open>/\s+/\<close>, \<open>/[,\s]+/\<close>).  A separator at the start or at the end leaves an empty
  string there, and the empty string splits into one empty string.  The flag says that the
  code unit before was part of a separator.
\<close>

fun splitRun :: "(jschar \<Rightarrow> bool) \<Rightarrow> bool \<Rightarrow> jsstring \<Rightarrow> jsstring list" where
  "splitRun sep inSep [] = [[]]"
| "splitRun sep inSep (c # cs) =
    (if sep c then (if inSep then splitRun sep True cs else [] # splitRun sep True cs)
     else (case splitRun sep False cs of
             [] \<Rightarrow> [[c]]
           | t # ts \<Rightarrow> (c # t) # ts))"

definition split :: "(jschar \<Rightarrow> bool) \<Rightarrow> jsstring \<Rightarrow> jsstring list" where
  "split sep s = splitRun sep False s"

section \<open>Menu numbers: \<open>numberToEmoji\<close> and \<open>emojiToNumber\<close>\<close>

text \<open>The array \<open>map\<close> of \<open>numberToEmoji\<close>: keycaps zero to nine and the glyph for ten.\<close>

definition emojiMap :: "jsstring list" where
  "emojiMap =
    [[0x30, 0xFE0F, 0x20E3], [0x31, 0xFE0F, 0x20E3], [0x32, 0xFE0F, 0x20E3],
     [0x33, 0xFE0F, 0x20E3], [0x34, 0xFE0F, 0x20E3], [0x35, 0xFE0F, 0x20E3],
     [0x36, 0xFE0F, 0x20E3], [0x37, 0xFE0F, 0x20E3], [0x38, 0xFE0F, 0x20E3],
     [0x39, 0xFE0F, 0x20E3], [0xD83D, 0xDD1F]]"

text \<open>\<open>map[num] || num.toString()\<close>: no entry of the array is the empty string, so the
  right operand is taken exactly when the index is outside the array.\<close>

definition numberToEmoji :: "nat \<Rightarrow> jsstring" where
  "numberToEmoji num = (if num < length emojiMap then emojiMap ! num else toString num)"

text \<open>\<open>str.replace(/[^0-9]/g, '')\<close>, then \<open>null\<close> (here \<open>None\<close>) when nothing is left.\<close>

definition emojiToNumber :: "jsstring \<Rightarrow> nat option" where
  "emojiToNumber str =
    (let clean = filter isDigit str
     in if clean = [] then None else Some (parseDecimal clean))"

section \<open>The store\<close>

text \<open>
  The tables of the Supabase database, as the program reads and writes them.  A table
  is the list of its rows; the sessions and the operator dialogs have one row per identity
  (\<open>user_jid\<close>, \<open>admin_jid\<close>) and are maps from the identity.  Reads always answer: a
  failure of the connection is outside the model.  The columns \<open>step\<close>, \<open>status\<close>,
  \<open>type\<close> and \<open>command\<close> hold ASCII words that the program compares with its own
  literals; they are plain strings.
\<close>

type_synonym jid = jsstring

record game =
  game_id :: nat
  game_number :: nat
  game_name :: jsstring
  game_description :: jsstring

record offer =
  offer_id :: nat
  offer_game_id :: nat
  offer_number :: nat
  offer_description :: jsstring
  price_mobile :: "int option"
  price_card :: "int option"
  price_usd :: "rat option"

text \<open>\<open>details\<close> is a JSON object: \<open>card_number\<close> and \<open>confirm_number\<close> for a card,
  \<open>phone_number\<close> for a mobile balance.\<close>

type_synonym details = "(string \<times> jsstring) list"

record payment_method =
  pm_id :: nat
  pm_type :: string
  pm_number :: nat
  pm_label :: jsstring
  pm_details :: details

record game_field =
  field_game_id :: nat
  field_name :: jsstring
  field_order :: nat
  field_required :: bool

text \<open>The column \<open>payment_details\<close> of a request: the details of the payment method
  (\<open>index.js\<close>) or the object \<open>{ field_values: ... }\<close> (the variant with custom fields).\<close>

datatype payment_details =
  MethodDetails details
| FieldValues "(jsstring \<times> jsstring) list option"

record request =
  req_id :: jsstring
  req_user_jid :: jid
  req_game_name :: jsstring
  req_offer_desc :: jsstring
  req_payment_method :: jsstring
  req_payment_details :: payment_details
  req_screenshot_url :: "jsstring option"
  req_status :: string
  req_completed_at :: "nat option"

text \<open>The columns of \<open>user_sessions\<close> that both variants of the client flow have.  Each
  variant extends them with its own selection columns.\<close>

record session_base =
  step :: string
  selected_game :: "nat option"
  request_id :: "jsstring option"
  updated_at :: "nat option"

text \<open>An entry of \<open>data.offers\<close> in the dialog \<open>anadir_ofertas\<close>.  The dialog is stored as
  JSON between two messages, where \<open>NaN\<close> becomes \<open>null\<close>: \<open>None\<close> is either.\<close>

record offer_entry =
  oe_number :: nat
  oe_desc :: jsstring
  oe_mobile :: "int option"
  oe_card :: "int option"
  oe_usd :: "rat option"

text \<open>The object \<open>data\<close> of an operator dialog, by the shapes the program builds.\<close>

datatype dialog_data =
  NoData
| TableData "jsstring list"
| OffersData nat nat "offer_entry list"
| EditGameData nat nat
| EditOfferData nat jsstring
| EditMethodData nat string nat

record admin_dialog =
  dlg_command :: string
  dlg_step :: nat
  dlg_data :: dialog_data

record 's db =
  games :: "game list"
  offers :: "offer list"
  payment_methods :: "payment_method list"
  game_fields :: "game_field list"
  user_sessions :: "jid \<rightharpoonup> 's"
  requests :: "request list"
  admin_dialogs :: "jid \<rightharpoonup> admin_dialog"

text \<open>What the process takes from outside while it handles one message: the operator's
  identity \<open>ADMIN_JID\<close>, the clock (\<open>new Date()\<close>), the identifier that
  \<open>generateRequestId()\<close> returns, the public URL of the uploaded screenshot (\<open>None\<close>
  when the download or the upload throws), and the Unicode tables of the runtime as
  \<open>containsOfertas\<close> consults them on a text of any script: \<open>unicodeLower\<close> is
  \<open>String.prototype.toLowerCase\<close> and \<open>unicodeNFD\<close> is
  \<open>String.prototype.normalize("NFD")\<close>, each a function from strings of code units to
  strings of code units.  Nothing is assumed of the two tables.\<close>

record env =
  ADMIN_JID :: jid
  now :: nat
  generateRequestId :: jsstring
  uploadScreenshot :: "jsstring option"
  unicodeLower :: "jsstring \<Rightarrow> jsstring"
  unicodeNFD :: "jsstring \<Rightarrow> jsstring"

text \<open>The inbound message, as far as the client flow looks at it.\<close>

record message =
  imageMessage :: bool
  documentMessage :: bool

subsection \<open>Reading\<close>

definition getGames :: "'s db \<Rightarrow> game list" where
  "getGames d = sort_key game_number (games d)"

text \<open>\<open>maybeSingle()\<close> on a column that is unique in its table: the row, or \<open>null\<close>.\<close>

definition getGameByNumber :: "'s db \<Rightarrow> nat \<Rightarrow> game option" where
  "getGameByNumber d n = find (\<lambda>g. game_number g = n) (games d)"

definition getOffersByGameId :: "'s db \<Rightarrow> nat \<Rightarrow> offer list" where
  "getOffersByGameId d gid = sort_key offer_number (filter (\<lambda>x. offer_game_id x = gid) (offers d))"

definition getOfferByGameAndNumber :: "'s db \<Rightarrow> nat \<Rightarrow> nat \<Rightarrow> offer option" where
  "getOfferByGameAndNumber d gid n =
    find (\<lambda>x. offer_game_id x = gid \<and> offer_number x = n) (offers d)"

definition getOfferById :: "'s db \<Rightarrow> nat \<Rightarrow> offer option" where
  "getOfferById d i = find (\<lambda>x. offer_id x = i) (offers d)"

text \<open>\<open>select('*').in('id', ids)\<close>; the empty list without a query when \<open>ids\<close> is \<open>null\<close>
  or empty.\<close>

definition getOffersByIds :: "'s db \<Rightarrow> nat list option \<Rightarrow> offer list" where
  "getOffersByIds d ids =
    (case ids of
       None \<Rightarrow> []
     | Some xs \<Rightarrow> filter (\<lambda>x. offer_id x \<in> set xs) (offers d))"

definition getPaymentMethods :: "'s db \<Rightarrow> string \<Rightarrow> payment_method list" where
  "getPaymentMethods d ty = sort_key pm_number (filter (\<lambda>m. pm_type m = ty) (payment_methods d))"

definition getPaymentMethodByNumber :: "'s db \<Rightarrow> string \<Rightarrow> nat \<Rightarrow> payment_method option" where
  "getPaymentMethodByNumber d ty n =
    find (\<lambda>m. pm_type m = ty \<and> pm_number m = n) (payment_methods d)"

definition getGameFields :: "'s db \<Rightarrow> nat \<Rightarrow> game_field list" where
  "getGameFields d gid = sort_key field_order (filter (\<lambda>f. field_game_id f = gid) (game_fields d))"

definition getRequest :: "'s db \<Rightarrow> jsstring \<Rightarrow> request option" where
  "getRequest d rid = find (\<lambda>r. req_id r = rid) (requests d)"

text \<open>A session column that holds \<open>null\<close> selects no row.\<close>

definition getSelectedGame :: "'s db \<Rightarrow> nat option \<Rightarrow> game option" where
  "getSelectedGame d sel = (case sel of None \<Rightarrow> None | Some n \<Rightarrow> getGameByNumber d n)"

subsection \<open>Writing\<close>

text \<open>\<open>updateUserSession(userJid, updates)\<close>: the columns named in \<open>updates\<close> and
  \<open>updated_at\<close> change in the row of that identity; no row, no change.\<close>

definition updateUserSession ::
  "env \<Rightarrow> jid \<Rightarrow> ('a session_base_scheme \<Rightarrow> 'a session_base_scheme) \<Rightarrow>
   'a session_base_scheme db \<Rightarrow> 'a session_base_scheme db" where
  "updateUserSession e j updates d =
    (case user_sessions d j of
       None \<Rightarrow> d
     | Some s \<Rightarrow> d\<lparr>user_sessions := (user_sessions d)(j \<mapsto> (updates s)\<lparr>updated_at := Some (now e)\<rparr>)\<rparr>)"

text \<open>Modelled from the spec: the schema of the table \<open>requests\<close> is not among the sources;
  the spec has the identifier of an order unique, so the insert of a second row with the
  same \<open>id\<close>, or of a row without one, is the error that \<open>createRequest\<close> throws
  (\<open>None\<close> here).\<close>

definition createRequest :: "jsstring option \<Rightarrow> request \<Rightarrow> 's db \<Rightarrow> 's db option" where
  "createRequest requestId r d =
    (case requestId of
       None \<Rightarrow> None
     | Some i \<Rightarrow>
         if i \<in> set (map req_id (requests d)) then None
         else Some (d\<lparr>requests := requests d @ [r\<lparr>req_id := i\<rparr>]\<rparr>))"

definition completeRequest :: "env \<Rightarrow> jsstring \<Rightarrow> 's db \<Rightarrow> 's db" where
  "completeRequest e rid d =
    d\<lparr>requests :=
        map (\<lambda>r. if req_id r = rid
                 then r\<lparr>req_status := ''completed'', req_completed_at := Some (now e)\<rparr>
                 else r)
          (requests d)\<rparr>"

section \<open>Outbound texts of the client flow\<close>

text \<open>
  Every outbound message is one block of text.  The fixed wording is abstracted to a
  constructor; the values that the program interpolates are its arguments.  A sent message
  is the recipient, whether \<open>sendWithCancelHint\<close> appended its line about \<open>cancelar\<close>, and
  the text.
\<close>

type_synonym offer_line = "jsstring \<times> jsstring \<times> int option \<times> int option \<times> rat option"

datatype client_text =
  MainMenu "(jsstring \<times> jsstring) list"
| NoGames
| InvalidGameNumber
| GameNotExist
| GameWithoutOffers
| OfferMenu jsstring "offer_line list"
| OfferMenuBack jsstring "offer_line list"
| InvalidOfferNumber
| SelectedGameNotFound
| OfferNotFound
| ChoosePaymentType bool bool
| NoPaymentMethods
| InvalidPaymentType
| NoMethodsOfType
| MethodMenu string "(jsstring \<times> jsstring) list"
| InvalidMethodNumber
| MethodNotFound
| InternalError
| PaymentInfo jsstring jsstring jsstring payment_method
| ChangeMethodHint
| ImageRequired
| ScreenshotFailed
| NewRequest jsstring jid jsstring jsstring jsstring jsstring
| RequestSent jsstring
| OfferMenuMulti jsstring "offer_line list"
| OfferMenuBackMulti jsstring "offer_line list"
| NoNumbersRecognized
| OfferNumberNotExist nat
| AskField jsstring
| AskNextField jsstring
| NewRequestFields jid jsstring "offer list" "(jsstring \<times> jsstring) list" jsstring
| RequestSentFields jsstring

type_synonym 't sent = "jid \<times> bool \<times> 't"

definition sendMessage :: "jid \<Rightarrow> 't \<Rightarrow> 't sent" where
  "sendMessage j t = (j, False, t)"

definition sendWithCancelHint :: "jid \<Rightarrow> 't \<Rightarrow> 't sent" where
  "sendWithCancelHint j t = (j, True, t)"

definition sendMainMenu :: "jid \<Rightarrow> 's db \<Rightarrow> client_text sent list" where
  "sendMainMenu j d =
    (let gs = getGames d
     in if gs = [] then [sendMessage j NoGames]
        else [sendMessage j (MainMenu (map (\<lambda>g. (numberToEmoji (game_number g), game_name g)) gs))])"

text \<open>A line of the offer list.  \<open>if (o.price_usd)\<close> shows the USD price when it is neither
  \<open>null\<close> nor zero; the list that \<open>handleBack\<close> sends never shows it.\<close>

definition offerLine :: "offer \<Rightarrow> offer_line" where
  "offerLine x =
    (numberToEmoji (offer_number x), offer_description x, price_card x, price_mobile x,
     (case price_usd x of None \<Rightarrow> None | Some u \<Rightarrow> if u = 0 then None else Some u))"

definition offerLineBack :: "offer \<Rightarrow> offer_line" where
  "offerLineBack x =
    (numberToEmoji (offer_number x), offer_description x, price_card x, price_mobile x, None)"

section \<open>The client flow of \<open>index.js\<close> (payment method and screenshot)\<close>

record session = session_base +
  selected_offer_id :: "nat option"
  selected_payment_type :: "string option"
  selected_payment_number :: "nat option"

text \<open>\<open>getUserSession\<close>: the row of the identity; on first contact a row with
  \<open>step: 'idle'\<close> is inserted, its other columns \<open>null\<close>.\<close>

definition newSession :: session where
  "newSession =
    \<lparr>step = ''idle'', selected_game = None, request_id = None, updated_at = None,
     selected_offer_id = None, selected_payment_type = None, selected_payment_number = None\<rparr>"

definition getUserSession :: "jid \<Rightarrow> session db \<Rightarrow> session \<times> session db" where
  "getUserSession j d =
    (case user_sessions d j of
       Some s \<Rightarrow> (s, d)
     | None \<Rightarrow> (newSession, d\<lparr>user_sessions := (user_sessions d)(j \<mapsto> newSession)\<rparr>))"

text \<open>The update that \<open>cancelar\<close> and the end of the flow write.\<close>

definition resetSession :: "session \<Rightarrow> session" where
  "resetSession s =
    s\<lparr>step := ''idle'', selected_game := None, selected_offer_id := None,
      selected_payment_type := None, selected_payment_number := None, request_id := None\<rparr>"

definition getSelectedOffer :: "'s db \<Rightarrow> nat option \<Rightarrow> offer option" where
  "getSelectedOffer d sel = (case sel of None \<Rightarrow> None | Some i \<Rightarrow> getOfferById d i)"

definition getSelectedMethod :: "'s db \<Rightarrow> string option \<Rightarrow> nat option \<Rightarrow> payment_method option" where
  "getSelectedMethod d ty n =
    (case (ty, n) of
       (Some t, Some k) \<Rightarrow> getPaymentMethodByNumber d t k
     | _ \<Rightarrow> None)"

text \<open>\<open>case 'awaiting_game'\<close>.  \<open>!gameNumber\<close> holds for \<open>null\<close> and for zero.\<close>

definition awaiting_game ::
  "env \<Rightarrow> jid \<Rightarrow> jsstring \<Rightarrow> session db \<Rightarrow> session db \<times> client_text sent list" where
  "awaiting_game e j text d =
    (let invalid = (d, [sendWithCancelHint j InvalidGameNumber])
     in case emojiToNumber text of
          None \<Rightarrow> invalid
        | Some gameNumber \<Rightarrow>
            if gameNumber = 0 then invalid
            else (case getGameByNumber d gameNumber of
                    None \<Rightarrow> (d, [sendWithCancelHint j GameNotExist])
                  | Some g \<Rightarrow>
                      let os = getOffersByGameId d (game_id g)
                      in if os = [] then (d, [sendWithCancelHint j GameWithoutOffers])
                         else (updateUserSession e j
                                 (\<lambda>s. s\<lparr>step := ''awaiting_offer'', selected_game := Some gameNumber\<rparr>) d,
                               [sendWithCancelHint j (OfferMenu (game_name g) (map offerLine os))])))"

text \<open>\<open>case 'awaiting_offer'\<close>.\<close>

definition awaiting_offer ::
  "env \<Rightarrow> jid \<Rightarrow> jsstring \<Rightarrow> session \<Rightarrow> session db \<Rightarrow> session db \<times> client_text sent list" where
  "awaiting_offer e j text sess d =
    (let invalid = (d, [sendWithCancelHint j InvalidOfferNumber])
     in case emojiToNumber text of
          None \<Rightarrow> invalid
        | Some offerNumber \<Rightarrow>
            if offerNumber = 0 then invalid
            else (case getSelectedGame d (selected_game sess) of
                    None \<Rightarrow>
                      (updateUserSession e j (\<lambda>s. s\<lparr>step := ''idle''\<rparr>) d,
                       [sendWithCancelHint j SelectedGameNotFound])
                  | Some g \<Rightarrow>
                      (case getOfferByGameAndNumber d (game_id g) offerNumber of
                         None \<Rightarrow> (d, [sendWithCancelHint j OfferNotFound])
                       | Some x \<Rightarrow>
                           let d1 = updateUserSession e j
                                      (\<lambda>s. s\<lparr>step := ''awaiting_payment_method'',
                                             selected_offer_id := Some (offer_id x)\<rparr>) d;
                               cards = getPaymentMethods d1 ''card'';
                               mobiles = getPaymentMethods d1 ''mobile''
                           in if cards = [] \<and> mobiles = []
                              then (updateUserSession e j (\<lambda>s. s\<lparr>step := ''idle''\<rparr>) d1,
                                    [sendMessage j NoPaymentMethods])
                              else (d1, [sendWithCancelHint j
                                           (ChoosePaymentType (cards \<noteq> []) (mobiles \<noteq> []))]))))"

text \<open>\<open>case 'awaiting_payment_method'\<close>.\<close>

definition awaiting_payment_method ::
  "env \<Rightarrow> jid \<Rightarrow> jsstring \<Rightarrow> session db \<Rightarrow> session db \<times> client_text sent list" where
  "awaiting_payment_method e j text d =
    (let method = trim text
     in if method \<noteq> js ''1'' \<and> method \<noteq> js ''2''
        then (d, [sendWithCancelHint j InvalidPaymentType])
        else let ty = (if method = js ''1'' then ''card'' else ''mobile'');
                 methods = getPaymentMethods d ty
             in if methods = [] then (d, [sendWithCancelHint j NoMethodsOfType])
                else (updateUserSession e j
                        (\<lambda>s. s\<lparr>step := ''awaiting_payment_choice'', selected_payment_type := Some ty\<rparr>) d,
                      [sendWithCancelHint j
                         (MethodMenu ty (map (\<lambda>m. (numberToEmoji (pm_number m), pm_label m)) methods))]))"

text \<open>\<open>case 'awaiting_payment_choice'\<close>.\<close>

definition awaiting_payment_choice ::
  "env \<Rightarrow> jid \<Rightarrow> jsstring \<Rightarrow> session \<Rightarrow> session db \<Rightarrow> session db \<times> client_text sent list" where
  "awaiting_payment_choice e j text sess d =
    (let invalid = (d, [sendWithCancelHint j InvalidMethodNumber])
     in case emojiToNumber text of
          None \<Rightarrow> invalid
        | Some choiceNumber \<Rightarrow>
            if choiceNumber = 0 then invalid
            else (case getSelectedMethod d (selected_payment_type sess) (Some choiceNumber) of
                    None \<Rightarrow> (d, [sendWithCancelHint j MethodNotFound])
                  | Some m \<Rightarrow>
                      (case (getSelectedGame d (selected_game sess),
                             getSelectedOffer d (selected_offer_id sess)) of
                         (Some g, Some x) \<Rightarrow>
                           let requestId = generateRequestId e
                           in (updateUserSession e j
                                 (\<lambda>s. s\<lparr>step := ''awaiting_screenshot'', request_id := Some requestId,
                                        selected_payment_number := Some choiceNumber\<rparr>) d,
                               [sendMessage j
                                  (PaymentInfo requestId (game_name g) (offer_description x) m)])
                       | _ \<Rightarrow>
                           (updateUserSession e j (\<lambda>s. s\<lparr>step := ''idle''\<rparr>) d,
                            [sendWithCancelHint j InternalError]))))"

text \<open>
  \<open>case 'awaiting_screenshot'\<close>.  Inside the \<open>try\<close>: the upload, the three lookups (a
  \<open>null\<close> among them throws at \<open>game.name\<close>, \<open>offer.description\<close> or \<open>method.label\<close>),
  the insert of the request (which throws for a session whose \<open>request_id\<close> is \<open>null\<close>
  and for an identifier already in the table), the notice to the operator, the
  confirmation to the user and the reset of the session.  Whatever throws ends in the
  \<open>catch\<close>, which only sends the text about the failed screenshot.
\<close>

definition awaiting_screenshot ::
  "env \<Rightarrow> message \<Rightarrow> jid \<Rightarrow> session \<Rightarrow> session db \<Rightarrow> session db \<times> client_text sent list" where
  "awaiting_screenshot e msg j sess d =
    (if \<not> imageMessage msg \<and> \<not> documentMessage msg
     then (d, [sendWithCancelHint j ImageRequired])
     else let failed = (d, [sendWithCancelHint j ScreenshotFailed])
          in case uploadScreenshot e of
               None \<Rightarrow> failed
             | Some screenshotUrl \<Rightarrow>
                 (case (getSelectedGame d (selected_game sess),
                        getSelectedOffer d (selected_offer_id sess),
                        getSelectedMethod d (selected_payment_type sess) (selected_payment_number sess)) of
                    (Some g, Some x, Some m) \<Rightarrow>
                      (case request_id sess of
                         None \<Rightarrow> failed
                       | Some rid \<Rightarrow>
                           (case createRequest (Some rid)
                                   \<lparr>req_id = rid, req_user_jid = j, req_game_name = game_name g,
                                    req_offer_desc = offer_description x,
                                    req_payment_method = pm_label m,
                                    req_payment_details = MethodDetails (pm_details m),
                                    req_screenshot_url = Some screenshotUrl,
                                    req_status = ''pending'', req_completed_at = None\<rparr> d of
                              None \<Rightarrow> failed
                            | Some d1 \<Rightarrow>
                                (updateUserSession e j resetSession d1,
                                 [sendMessage (ADMIN_JID e)
                                    (NewRequest rid j (game_name g) (offer_description x)
                                       (pm_label m) screenshotUrl),
                                  sendMessage j (RequestSent rid)])))
                  | _ \<Rightarrow> failed))"

text \<open>\<open>handleBack\<close> of \<open>index.js\<close>.\<close>

definition handleBack ::
  "env \<Rightarrow> jid \<Rightarrow> session \<Rightarrow> session db \<Rightarrow> session db \<times> client_text sent list" where
  "handleBack e j sess d =
    (if step sess = ''awaiting_game'' \<or> step sess = ''idle'' then (d, sendMainMenu j d)
     else if step sess = ''awaiting_offer''
     then (updateUserSession e j (\<lambda>s. s\<lparr>step := ''idle'', selected_game := None\<rparr>) d,
           sendMainMenu j d)
     else if step sess = ''awaiting_payment_method''
     then (case getSelectedGame d (selected_game sess) of
             None \<Rightarrow> (d, sendMainMenu j d)
           | Some g \<Rightarrow>
               (updateUserSession e j
                  (\<lambda>s. s\<lparr>step := ''awaiting_offer'', selected_offer_id := None\<rparr>) d,
                [sendWithCancelHint j
                   (OfferMenuBack (game_name g) (map offerLineBack (getOffersByGameId d (game_id g))))]))
     else if step sess = ''awaiting_payment_choice''
     then (updateUserSession e j
             (\<lambda>s. s\<lparr>step := ''awaiting_payment_method'', selected_payment_type := None,
                    selected_payment_number := None\<rparr>) d,
           [sendWithCancelHint j
              (ChoosePaymentType (getPaymentMethods d ''card'' \<noteq> [])
                 (getPaymentMethods d ''mobile'' \<noteq> []))])
     else if step sess = ''awaiting_screenshot''
     then (d, [sendWithCancelHint j ChangeMethodHint])
     else (d, sendMainMenu j d))"

text \<open>\<open>handleClientMessage\<close> of \<open>index.js\<close>.\<close>

definition handleClientMessage ::
  "env \<Rightarrow> message \<Rightarrow> jid \<Rightarrow> jsstring \<Rightarrow> session db \<Rightarrow> session db \<times> client_text sent list" where
  "handleClientMessage e msg j text d =
    (let (sess, d0) = getUserSession j d;
         lower = toLowerCase (trim text)
     in if lower = js ''cancelar'' then (updateUserSession e j resetSession d0, sendMainMenu j d0)
        else if lower = js ''volver'' then handleBack e j sess d0
        else if step sess = ''idle'' then (d0, sendMainMenu j d0)
        else if step sess = ''awaiting_game'' then awaiting_game e j text d0
        else if step sess = ''awaiting_offer'' then awaiting_offer e j text sess d0
        else if step sess = ''awaiting_payment_method'' then awaiting_payment_method e j text d0
        else if step sess = ''awaiting_payment_choice'' then awaiting_payment_choice e j text sess d0
        else if step sess = ''awaiting_screenshot'' then awaiting_screenshot e msg j sess d0
        else (d0, sendMainMenu j d0))"

section \<open>The client flow of the variant with custom fields\<close>

text \<open>
  The second variant of the program (the source file whose name is not known) has the
  same store and helpers; its client flow selects several offers, asks for the custom
  fields of the game and creates the request without a payment step.  Its functions carry
  the suffix \<open>2\<close> where \<open>index.js\<close> has a function of the same name.
\<close>

record session2 = session_base +
  selected_offers :: "nat list option"
  field_values :: "(jsstring \<times> jsstring) list option"
  current_field :: "nat option"

definition newSession2 :: session2 where
  "newSession2 =
    \<lparr>step = ''idle'', selected_game = None, request_id = None, updated_at = None,
     selected_offers = None, field_values = None, current_field = None\<rparr>"

definition getUserSession2 :: "jid \<Rightarrow> session2 db \<Rightarrow> session2 \<times> session2 db" where
  "getUserSession2 j d =
    (case user_sessions d j of
       Some s \<Rightarrow> (s, d)
     | None \<Rightarrow> (newSession2, d\<lparr>user_sessions := (user_sessions d)(j \<mapsto> newSession2)\<rparr>))"

definition resetSession2 :: "session2 \<Rightarrow> session2" where
  "resetSession2 s =
    s\<lparr>step := ''idle'', selected_game := None, selected_offers := None, field_values := None,
      current_field := None, request_id := None\<rparr>"

subsection \<open>\<open>containsOfertas\<close>\<close>

text \<open>
  The program lower-cases the text, decomposes it (\<open>normalize("NFD")\<close>), removes the
  combining marks U+0300 to U+036F and tests the rest against \<open>/oferta(s)?|oferts?/\<close>.
  The two tables are the runtime's and cover every script, so \<open>containsOfertas\<close> takes
  them from the environment (\<open>unicodeLower\<close>, \<open>unicodeNFD\<close>), and what is proved of it
  holds whatever the tables are.

  \<open>latin1NFD\<close> is the part of the decomposition table for Latin-1: the letters of
  Latin-1 that decompose into a base letter and one combining mark.  It is the runtime's
  function on a text whose code units are all below U+0100, and together with
  \<open>toLowerCase\<close> it is the pair of tables of the example environment, whose texts are
  all of that kind; it is used nowhere else.
\<close>

definition nfdLower :: "(jschar \<times> jschar \<times> jschar) list" where
  "nfdLower =
    [(0xE0, 0x61, 0x300), (0xE1, 0x61, 0x301), (0xE2, 0x61, 0x302), (0xE3, 0x61, 0x303),
     (0xE4, 0x61, 0x308), (0xE5, 0x61, 0x30A), (0xE7, 0x63, 0x327),
     (0xE8, 0x65, 0x300), (0xE9, 0x65, 0x301), (0xEA, 0x65, 0x302), (0xEB, 0x65, 0x308),
     (0xEC, 0x69, 0x300), (0xED, 0x69, 0x301), (0xEE, 0x69, 0x302), (0xEF, 0x69, 0x308),
     (0xF1, 0x6E, 0x303),
     (0xF2, 0x6F, 0x300), (0xF3, 0x6F, 0x301), (0xF4, 0x6F, 0x302), (0xF5, 0x6F, 0x303),
     (0xF6, 0x6F, 0x308),
     (0xF9, 0x75, 0x300), (0xFA, 0x75, 0x301), (0xFB, 0x75, 0x302), (0xFC, 0x75, 0x308),
     (0xFD, 0x79, 0x301), (0xFF, 0x79, 0x308)]"

definition nfdUnit :: "jschar \<Rightarrow> jsstring" where
  "nfdUnit c =
    (case map_of nfdLower c of
       Some (b, m) \<Rightarrow> [b, m]
     | None \<Rightarrow>
         (if 0xC0 \<le> c \<and> c \<le> 0xDD
          then (case map_of nfdLower (c + 0x20) of
                  Some (b, m) \<Rightarrow> [b - 0x20, m]
                | None \<Rightarrow> [c])
          else [c]))"

definition latin1NFD :: "jsstring \<Rightarrow> jsstring" where
  "latin1NFD s = concat (map nfdUnit s)"

fun startsWith :: "jsstring \<Rightarrow> jsstring \<Rightarrow> bool" where
  "startsWith s [] = True"
| "startsWith [] (p # ps) = False"
| "startsWith (c # cs) (p # ps) = (c = p \<and> startsWith cs ps)"

fun includesStr :: "jsstring \<Rightarrow> jsstring \<Rightarrow> bool" where
  "includesStr [] pat = (pat = [])"
| "includesStr (c # cs) pat = (startsWith (c # cs) pat \<or> includesStr cs pat)"

text \<open>\<open>/oferta(s)?|oferts?/.test(normalized)\<close>: somewhere in the string the first or the
  second alternative matches; the optional \<open>s\<close> of either may match nothing.\<close>

definition ofertasRegex :: "jsstring \<Rightarrow> bool" where
  "ofertasRegex s = (includesStr s (js ''oferta'') \<or> includesStr s (js ''ofert''))"

definition containsOfertas :: "env \<Rightarrow> jsstring \<Rightarrow> bool" where
  "containsOfertas e text =
    (if text = [] then False
     else let normalized =
                filter (\<lambda>c. \<not> (0x300 \<le> c \<and> c \<le> 0x36F)) (unicodeNFD e (unicodeLower e text))
          in ofertasRegex normalized)"

subsection \<open>\<open>sendRequestToAdmin\<close> and the steps\<close>

text \<open>
  A function of this variant can throw out of \<open>handleClientMessage\<close> (the loop over the
  inbound messages logs it): what it wrote and sent before stays.  The result is the
  store, the messages sent, and whether the function returned.
\<close>

datatype outcome = Returned | Threw

type_synonym result2 = "session2 db \<times> client_text sent list \<times> outcome"

fun joinWith :: "jsstring \<Rightarrow> jsstring list \<Rightarrow> jsstring" where
  "joinWith sep [] = []"
| "joinWith sep [x] = x"
| "joinWith sep (x # y # ys) = x @ sep @ joinWith sep (y # ys)"

text \<open>
  \<open>sendRequestToAdmin\<close>.  \<open>game.name\<close> throws for a game that is gone, before the
  insert; \<open>Object.keys(fieldValues)\<close> throws for \<open>null\<close>, after it.
\<close>

definition sendRequestToAdmin ::
  "env \<Rightarrow> jid \<Rightarrow> session2 \<Rightarrow> nat list option \<Rightarrow> (jsstring \<times> jsstring) list option \<Rightarrow>
   session2 db \<Rightarrow> result2" where
  "sendRequestToAdmin e j sess offerIds fieldValues d =
    (case getSelectedGame d (selected_game sess) of
       None \<Rightarrow> (d, [], Threw)
     | Some g \<Rightarrow>
         let os = getOffersByIds d offerIds;
             requestId = generateRequestId e
         in case createRequest (Some requestId)
                   \<lparr>req_id = requestId, req_user_jid = j, req_game_name = game_name g,
                    req_offer_desc = joinWith (js '', '') (map offer_description os),
                    req_payment_method = js ''pendiente'',
                    req_payment_details = FieldValues fieldValues,
                    req_screenshot_url = None, req_status = ''pending'',
                    req_completed_at = None\<rparr> d of
              None \<Rightarrow> (d, [], Threw)
            | Some d1 \<Rightarrow>
                (case fieldValues of
                   None \<Rightarrow> (d1, [], Threw)
                 | Some fv \<Rightarrow>
                     (updateUserSession e j resetSession2 d1,
                      [sendMessage (ADMIN_JID e) (NewRequestFields j (game_name g) os fv requestId),
                       sendMessage j (RequestSentFields requestId)],
                      Returned)))"

text \<open>\<open>case 'awaiting_game'\<close> of this variant.\<close>

definition awaiting_game2 :: "env \<Rightarrow> jid \<Rightarrow> jsstring \<Rightarrow> session2 db \<Rightarrow> result2" where
  "awaiting_game2 e j text d =
    (let invalid = (d, [sendWithCancelHint j InvalidGameNumber], Returned)
     in case emojiToNumber text of
          None \<Rightarrow> invalid
        | Some gameNumber \<Rightarrow>
            if gameNumber = 0 then invalid
            else (case getGameByNumber d gameNumber of
                    None \<Rightarrow> (d, [sendWithCancelHint j GameNotExist], Returned)
                  | Some g \<Rightarrow>
                      let os = getOffersByGameId d (game_id g)
                      in if os = [] then (d, [sendWithCancelHint j GameWithoutOffers], Returned)
                         else (updateUserSession e j
                                 (\<lambda>s. s\<lparr>step := ''awaiting_offers'', selected_game := Some gameNumber\<rparr>) d,
                               [sendWithCancelHint j (OfferMenuMulti (game_name g) (map offerLine os))],
                               Returned)))"

text \<open>The loop over \<open>numbers\<close> in \<open>case 'awaiting_offers'\<close>: the identifiers of the offers
  (\<open>Inr\<close>), or the first number that no offer of the game has (\<open>Inl\<close>), at which the case
  returns.\<close>

fun resolveOffers :: "offer list \<Rightarrow> nat list \<Rightarrow> nat + nat list" where
  "resolveOffers os [] = Inr []"
| "resolveOffers os (num # nums) =
    (case find (\<lambda>x. offer_number x = num) os of
       None \<Rightarrow> Inl num
     | Some x \<Rightarrow>
         (case resolveOffers os nums of
            Inl bad \<Rightarrow> Inl bad
          | Inr ids \<Rightarrow> Inr (offer_id x # ids)))"

text \<open>\<open>text.split(/[,\s]+/).map(s => emojiToNumber(s)).filter(n => n !== null)\<close>.\<close>

definition parseNumbers :: "jsstring \<Rightarrow> nat list" where
  "parseNumbers text = List.map_filter emojiToNumber (split (\<lambda>c. c = 0x2C \<or> isWhiteSpace c) text)"

definition awaiting_offers :: "env \<Rightarrow> jid \<Rightarrow> jsstring \<Rightarrow> session2 \<Rightarrow> session2 db \<Rightarrow> result2" where
  "awaiting_offers e j text sess d =
    (let numbers = parseNumbers text
     in if numbers = [] then (d, [sendWithCancelHint j NoNumbersRecognized], Returned)
        else (case getSelectedGame d (selected_game sess) of
                None \<Rightarrow>
                  (updateUserSession e j (\<lambda>s. s\<lparr>step := ''idle''\<rparr>) d,
                   [sendWithCancelHint j SelectedGameNotFound], Returned)
              | Some g \<Rightarrow>
                  (case resolveOffers (getOffersByGameId d (game_id g)) numbers of
                     Inl num \<Rightarrow> (d, [sendWithCancelHint j (OfferNumberNotExist num)], Returned)
                   | Inr selectedOffers \<Rightarrow>
                       let d1 = updateUserSession e j
                                  (\<lambda>s. s\<lparr>step := ''awaiting_fields'',
                                         selected_offers := Some selectedOffers,
                                         field_values := Some [], current_field := Some 0\<rparr>) d
                       in (case getGameFields d1 (game_id g) of
                             [] \<Rightarrow> sendRequestToAdmin e j sess (Some selectedOffers) (Some []) d1
                           | field # _ \<Rightarrow>
                               (d1, [sendMessage j (AskField (field_name field))], Returned)))))"

text \<open>\<open>fieldValues[name] = text\<close> on a JSON object, kept as the list of its entries.\<close>

fun setProperty :: "jsstring \<Rightarrow> jsstring \<Rightarrow> (jsstring \<times> jsstring) list \<Rightarrow> (jsstring \<times> jsstring) list" where
  "setProperty k v [] = [(k, v)]"
| "setProperty k v ((k', v') # kvs) =
    (if k' = k then (k, v) # kvs else (k', v') # setProperty k v kvs)"

definition awaiting_fields :: "env \<Rightarrow> jid \<Rightarrow> jsstring \<Rightarrow> session2 \<Rightarrow> session2 db \<Rightarrow> result2" where
  "awaiting_fields e j text sess d =
    (case getSelectedGame d (selected_game sess) of
       None \<Rightarrow>
         (updateUserSession e j (\<lambda>s. s\<lparr>step := ''idle''\<rparr>) d,
          [sendWithCancelHint j SelectedGameNotFound], Returned)
     | Some g \<Rightarrow>
         let fields = getGameFields d (game_id g);
             currentIdx = (case current_field sess of None \<Rightarrow> 0 | Some k \<Rightarrow> k)
         in if currentIdx \<ge> length fields
            then sendRequestToAdmin e j sess (selected_offers sess) (field_values sess) d
            else let field = fields ! currentIdx;
                     fieldValues = setProperty (field_name field) text
                                     (case field_values sess of None \<Rightarrow> [] | Some fv \<Rightarrow> fv)
                 in if currentIdx + 1 < length fields
                    then (updateUserSession e j
                            (\<lambda>s. s\<lparr>field_values := Some fieldValues,
                                   current_field := Some (currentIdx + 1)\<rparr>) d,
                          [sendMessage j (AskNextField (field_name (fields ! (currentIdx + 1))))],
                          Returned)
                    else sendRequestToAdmin e j sess (selected_offers sess) (Some fieldValues)
                           (updateUserSession e j (\<lambda>s. s\<lparr>field_values := Some fieldValues\<rparr>) d))"

text \<open>\<open>handleBack\<close> of this variant.\<close>

definition handleBack2 :: "env \<Rightarrow> jid \<Rightarrow> session2 \<Rightarrow> session2 db \<Rightarrow> result2" where
  "handleBack2 e j sess d =
    (if step sess = ''awaiting_game'' \<or> step sess = ''idle'' then (d, sendMainMenu j d, Returned)
     else if step sess = ''awaiting_offers''
     then (updateUserSession e j (\<lambda>s. s\<lparr>step := ''idle'', selected_game := None\<rparr>) d,
           sendMainMenu j d, Returned)
     else if step sess = ''awaiting_fields''
     then (case getSelectedGame d (selected_game sess) of
             None \<Rightarrow> (d, sendMainMenu j d, Returned)
           | Some g \<Rightarrow>
               (updateUserSession e j
                  (\<lambda>s. s\<lparr>step := ''awaiting_offers'', selected_offers := None,
                         field_values := None, current_field := None\<rparr>) d,
                [sendWithCancelHint j
                   (OfferMenuBackMulti (game_name g)
                      (map offerLineBack (getOffersByGameId d (game_id g))))],
                Returned))
     else (d, sendMainMenu j d, Returned))"

text \<open>\<open>handleClientMessage\<close> of this variant.\<close>

definition handleClientMessage2 :: "env \<Rightarrow> message \<Rightarrow> jid \<Rightarrow> jsstring \<Rightarrow> session2 db \<Rightarrow> result2" where
  "handleClientMessage2 e msg j text d =
    (let (sess, d0) = getUserSession2 j d;
         lower = toLowerCase (trim text)
     in if containsOfertas e text \<and> step sess \<noteq> ''idle''
        then (updateUserSession e j resetSession2 d0, sendMainMenu j d0, Returned)
        else if lower = js ''cancelar''
        then (updateUserSession e j resetSession2 d0, sendMainMenu j d0, Returned)
        else if lower = js ''volver'' then handleBack2 e j sess d0
        else if step sess = ''idle'' then (d0, sendMainMenu j d0, Returned)
        else if step sess = ''awaiting_game'' then awaiting_game2 e j text d0
        else if step sess = ''awaiting_offers'' then awaiting_offers e j text sess d0
        else if step sess = ''awaiting_fields'' then awaiting_fields e j text sess d0
        else (d0, sendMainMenu j d0, Returned))"

section \<open>The operator: commands and dialogs\<close>

subsection \<open>Numbers read from text\<close>

text \<open>
  A JavaScript number, as far as the program tells numbers apart: \<open>NaN\<close>, an infinity,
  or a finite value.  The finite value is kept exact; the rounding to a double is not
  modelled, only the overflow to infinity.
\<close>

datatype jsnumber = NaN | Infinite | Finite rat

definition isSign :: "jschar \<Rightarrow> bool" where
  "isSign c = (c = 0x2B \<or> c = 0x2D)"

definition signOf :: "jsstring \<Rightarrow> int" where
  "signOf s = (case s of [] \<Rightarrow> 1 | c # _ \<Rightarrow> if c = 0x2D then - 1 else 1)"

definition dropSign :: "jsstring \<Rightarrow> jsstring" where
  "dropSign s = (case s of [] \<Rightarrow> [] | c # cs \<Rightarrow> if isSign c then cs else s)"

text \<open>\<open>parseInt(s, 10)\<close>: leading white space, a sign, then the longest run of digits;
  \<open>NaN\<close> (\<open>None\<close>) when there is no digit.\<close>

definition parseInt :: "jsstring \<Rightarrow> int option" where
  "parseInt s =
    (let t = dropWhile isWhiteSpace s;
         ds = takeWhile isDigit (dropSign t)
     in if ds = [] then None else Some (signOf t * int (parseDecimal ds)))"

definition overflow :: "rat \<Rightarrow> jsnumber" where
  "overflow v = (if \<bar>v\<bar> \<ge> 2 ^ 1024 - 2 ^ 970 then Infinite else Finite v)"

text \<open>The exponent part at the head of \<open>s\<close>, if there is one: its value and what follows
  it.  An \<open>e\<close> without digits after it is not an exponent part.\<close>

definition scanExponent :: "jsstring \<Rightarrow> int \<times> jsstring" where
  "scanExponent s =
    (case s of
       [] \<Rightarrow> (0, s)
     | c # cs \<Rightarrow>
         if c = 0x65 \<or> c = 0x45
         then (let ds = takeWhile isDigit (dropSign cs)
               in if ds = [] then (0, s)
                  else (signOf cs * int (parseDecimal ds), dropWhile isDigit (dropSign cs)))
         else (0, s))"

text \<open>The longest prefix of \<open>s\<close> that is a \<open>StrDecimalLiteral\<close> (sign, \<open>Infinity\<close> or
  digits with an optional fraction and exponent): its value and the rest of \<open>s\<close>.\<close>

definition scanDecimal :: "jsstring \<Rightarrow> (jsnumber \<times> jsstring) option" where
  "scanDecimal s =
    (let r0 = dropSign s
     in if startsWith r0 (js ''Infinity'') then Some (Infinite, drop 8 r0)
        else let ip = takeWhile isDigit r0;
                 r1 = dropWhile isDigit r0;
                 dot = (r1 \<noteq> [] \<and> hd r1 = 0x2E);
                 fp = (if dot then takeWhile isDigit (tl r1) else []);
                 r2 = (if dot then dropWhile isDigit (tl r1) else r1)
             in if ip = [] \<and> fp = [] then None
                else let (ex, r3) = scanExponent r2;
                         m = of_int (signOf s * int (parseDecimal (ip @ fp)));
                         p = ex - int (length fp)
                     in Some (overflow (if p \<ge> 0 then m * 10 ^ nat p else m / 10 ^ nat (- p)), r3))"

definition parseFloat :: "jsstring \<Rightarrow> jsnumber" where
  "parseFloat s =
    (case scanDecimal (dropWhile isWhiteSpace s) of
       None \<Rightarrow> NaN
     | Some (v, _) \<Rightarrow> v)"

definition digitOfBase :: "nat \<Rightarrow> jschar \<Rightarrow> nat option" where
  "digitOfBase b c =
    (let v = (if isDigit c then Some (unat c - 48)
              else if 0x61 \<le> c \<and> c \<le> 0x66 then Some (unat c - 87)
              else if 0x41 \<le> c \<and> c \<le> 0x46 then Some (unat c - 55)
              else None)
     in case v of None \<Rightarrow> None | Some k \<Rightarrow> if k < b then Some k else None)"

text \<open>\<open>0x\<close>, \<open>0o\<close> and \<open>0b\<close> literals of \<open>Number(s)\<close>: the base, if \<open>s\<close> starts as one.\<close>

definition prefixBase :: "jsstring \<Rightarrow> nat option" where
  "prefixBase s =
    (case s of
       z # x # _ \<Rightarrow>
         if z \<noteq> 0x30 then None
         else if x = 0x78 \<or> x = 0x58 then Some 16
         else if x = 0x6F \<or> x = 0x4F then Some 8
         else if x = 0x62 \<or> x = 0x42 then Some 2
         else None
     | _ \<Rightarrow> None)"

text \<open>\<open>Number(s)\<close> on a string, which is what \<open>isFinite(s)\<close> looks at.\<close>

definition toNumber :: "jsstring \<Rightarrow> jsnumber" where
  "toNumber s =
    (let t = trim s
     in if t = [] then Finite 0
        else case prefixBase t of
               Some b \<Rightarrow>
                 (let ds = map (digitOfBase b) (drop 2 t)
                  in if ds = [] \<or> None \<in> set ds then NaN
                     else overflow (of_nat (foldl (\<lambda>acc k. b * acc + (case k of None \<Rightarrow> 0 | Some v \<Rightarrow> v)) 0 ds)))
             | None \<Rightarrow>
                 (case scanDecimal t of
                    Some (v, []) \<Rightarrow> v
                  | _ \<Rightarrow> NaN))"

definition isNaN :: "jsnumber \<Rightarrow> bool" where
  "isNaN v = (v = NaN)"

definition isFinite :: "jsstring \<Rightarrow> bool" where
  "isFinite s = (case toNumber s of Finite _ \<Rightarrow> True | _ \<Rightarrow> False)"

subsection \<open>Outbound texts of the operator side\<close>

datatype admin_text =
  AskCardNumber
| AskMobileNumber
| AskGameTable
| NeedGameNumber
| NoSuchGame
| AddingOffers jsstring
| GameNotFound
| EditingGame jsstring
| AdminOfferNotFound
| EditingOffer jsstring
| PaymentMethodNotFound
| EditingMethod jsstring
| NoGamesAtAll
| GameList "(jsstring \<times> jsstring \<times> nat) list"
| NoOffersForGame
| OfferList jsstring "(offer_line \<times> nat) list"
| MethodList "(jsstring \<times> jsstring \<times> nat) list" "(jsstring \<times> jsstring \<times> nat) list"
| GameDeleted jsstring
| OfferDeleted jsstring
| AdminMethodNotFound
| MethodDeleted jsstring
| RequestNotFound
| AlreadyCompleted
| RechargeCompleted jsstring jsstring
| MarkedCompleted jsstring
| DialogCancelled
| UnknownCommand
| NoLinesReceived
| CreateGameError jsstring
| GamesCreated nat
| LineAdded
| NoOffersAdded
| CreateOfferError jsstring
| OffersAdded nat
| BadOfferFormat
| InvalidOfferNumberAdmin
| NoValidPrices
| OfferAdded jsstring

subsection \<open>Writing the catalogue and the dialogs\<close>

definition setAdminDialog :: "jid \<Rightarrow> string \<Rightarrow> nat \<Rightarrow> dialog_data \<Rightarrow> 's db \<Rightarrow> 's db" where
  "setAdminDialog j command st dat d =
    d\<lparr>admin_dialogs := (admin_dialogs d)(j \<mapsto> \<lparr>dlg_command = command, dlg_step = st, dlg_data = dat\<rparr>)\<rparr>"

definition clearAdminDialog :: "jid \<Rightarrow> 's db \<Rightarrow> 's db" where
  "clearAdminDialog j d = d\<lparr>admin_dialogs := (admin_dialogs d)(j := None)\<rparr>"

text \<open>The key that the database gives a new row: any key not in the table.\<close>

definition freshId :: "nat list \<Rightarrow> nat" where
  "freshId ids = Suc (foldr max ids 0)"


definition createOffer ::
  "nat \<Rightarrow> nat \<Rightarrow> jsstring \<Rightarrow> int option \<Rightarrow> int option \<Rightarrow> rat option \<Rightarrow> 's db \<Rightarrow> 's db option" where
  "createOffer gameId number description priceMobile priceCard priceUsd d =
    (if (gameId, number) \<in> set (map (\<lambda>x. (offer_game_id x, offer_number x)) (offers d)) then None
     else Some (d\<lparr>offers := offers d @
                  [\<lparr>offer_id = freshId (map offer_id (offers d)), offer_game_id = gameId,
                    offer_number = number, offer_description = description,
                    price_mobile = priceMobile, price_card = priceCard, price_usd = priceUsd\<rparr>]\<rparr>))"

definition deleteGame :: "nat \<Rightarrow> 's db \<Rightarrow> 's db" where
  "deleteGame gameId d =
    d\<lparr>games := filter (\<lambda>g. game_id g \<noteq> gameId) (games d),
      offers := filter (\<lambda>x. offer_game_id x \<noteq> gameId) (offers d)\<rparr>"

definition deleteOffer :: "nat \<Rightarrow> 's db \<Rightarrow> 's db" where
  "deleteOffer offerId d = d\<lparr>offers := filter (\<lambda>x. offer_id x \<noteq> offerId) (offers d)\<rparr>"

definition deletePaymentMethod :: "nat \<Rightarrow> 's db \<Rightarrow> 's db" where
  "deletePaymentMethod i d = d\<lparr>payment_methods := filter (\<lambda>m. pm_id m \<noteq> i) (payment_methods d)\<rparr>"

subsection \<open>\<open>handleAdminCommand\<close> of \<open>index.js\<close>\<close>

text \<open>\<open>parts[k]\<close>: \<open>undefined\<close> (\<open>None\<close>) beyond the end of the array.\<close>

definition part :: "jsstring list \<Rightarrow> nat \<Rightarrow> jsstring option" where
  "part parts k = (if k < length parts then Some (parts ! k) else None)"

text \<open>\<open>parts[k]\<close> as a condition: defined and not the empty string.\<close>

definition given :: "jsstring list \<Rightarrow> nat \<Rightarrow> bool" where
  "given parts k = (case part parts k of None \<Rightarrow> False | Some p \<Rightarrow> p \<noteq> [])"

text \<open>\<open>emojiToNumber(parts[k])\<close> for a \<open>parts[k]\<close> that is given.\<close>

definition numberAt :: "jsstring list \<Rightarrow> nat \<Rightarrow> nat option" where
  "numberAt parts k = (case part parts k of None \<Rightarrow> None | Some p \<Rightarrow> emojiToNumber p)"

text \<open>The command word of the source that adds offers to a game: \<open>/a\<close>, the letter
  U+00F1 (n with tilde), \<open>adir\<close>.\<close>

definition anadir :: jsstring where
  "anadir = [0x2F, 0x61, 0xF1, 0x61, 0x64, 0x69, 0x72]"

definition methodLines :: "payment_method list \<Rightarrow> (jsstring \<times> jsstring \<times> nat) list" where
  "methodLines ms = map (\<lambda>m. (numberToEmoji (pm_number m), pm_label m, pm_id m)) ms"

definition handleAdminCommand ::
  "env \<Rightarrow> jid \<Rightarrow> jsstring \<Rightarrow> 's db \<Rightarrow> 's db \<times> admin_text sent list" where
  "handleAdminCommand e j text d =
    (let parts = split isWhiteSpace (trim text);
         command = toLowerCase (parts ! 0)
     in if command = js ''/crear'' \<and> part parts 1 = Some (js ''tarjeta'')
        then (setAdminDialog j ''crear_tarjeta'' 1 NoData d, [sendMessage j AskCardNumber])
        else if command = js ''/crear'' \<and> part parts 1 = Some (js ''saldo'')
        then (setAdminDialog j ''crear_saldo'' 1 NoData d, [sendMessage j AskMobileNumber])
        else if command = js ''/crear'' \<and> part parts 1 = Some (js ''tabla'')
        then (setAdminDialog j ''crear_tabla'' 1 (TableData []) d, [sendMessage j AskGameTable])
        else if command = anadir \<and> part parts 1 = Some (js ''juego'') \<and> part parts 2 = Some (js ''a'')
                \<and> given parts 3
        then (case numberAt parts 3 of
                None \<Rightarrow> (d, [sendMessage j NeedGameNumber])
              | Some gameNumber \<Rightarrow>
                  if gameNumber = 0 then (d, [sendMessage j NeedGameNumber])
                  else (case getGameByNumber d gameNumber of
                          None \<Rightarrow> (d, [sendMessage j NoSuchGame])
                        | Some g \<Rightarrow>
                            (setAdminDialog j ''anadir_ofertas'' 1 (OffersData (game_id g) gameNumber []) d,
                             [sendMessage j (AddingOffers (game_name g))])))
        else if command = js ''/editar'' \<and> part parts 1 = Some (js ''juego'') \<and> given parts 2
        then (case numberAt parts 2 of
                None \<Rightarrow> (d, [sendMessage j GameNotFound])
              | Some gameNumber \<Rightarrow>
                  (case getGameByNumber d gameNumber of
                     None \<Rightarrow> (d, [sendMessage j GameNotFound])
                   | Some g \<Rightarrow>
                       (setAdminDialog j ''editar_juego'' 1 (EditGameData (game_id g) gameNumber) d,
                        [sendMessage j (EditingGame (game_name g))])))
        else if command = js ''/editar'' \<and> part parts 1 = Some (js ''oferta'') \<and> given parts 2
                \<and> given parts 3
        then (case getSelectedGame d (numberAt parts 2) of
                None \<Rightarrow> (d, [sendMessage j GameNotFound])
              | Some g \<Rightarrow>
                  (case (case numberAt parts 3 of
                           None \<Rightarrow> None
                         | Some offerNumber \<Rightarrow> getOfferByGameAndNumber d (game_id g) offerNumber) of
                     None \<Rightarrow> (d, [sendMessage j AdminOfferNotFound])
                   | Some x \<Rightarrow>
                       (setAdminDialog j ''editar_oferta'' 1 (EditOfferData (offer_id x) (game_name g)) d,
                        [sendMessage j (EditingOffer (offer_description x))])))
        else if command = js ''/editar''
                \<and> (part parts 1 = Some (js ''tarjeta'') \<or> part parts 1 = Some (js ''saldo''))
                \<and> given parts 2
        then (let ty = (if part parts 1 = Some (js ''tarjeta'') then ''card'' else ''mobile'')
              in case numberAt parts 2 of
                   None \<Rightarrow> (d, [sendMessage j PaymentMethodNotFound])
                 | Some methodNumber \<Rightarrow>
                     (case getPaymentMethodByNumber d ty methodNumber of
                        None \<Rightarrow> (d, [sendMessage j PaymentMethodNotFound])
                      | Some m \<Rightarrow>
                          (setAdminDialog j ''editar_metodo'' 1 (EditMethodData (pm_id m) ty methodNumber) d,
                           [sendMessage j (EditingMethod (pm_label m))])))
        else if command = js ''/listar'' \<and> part parts 1 = Some (js ''juegos'')
        then (let gs = getGames d
              in if gs = [] then (d, [sendMessage j NoGamesAtAll])
                 else (d, [sendMessage j
                             (GameList (map (\<lambda>g. (numberToEmoji (game_number g), game_name g, game_id g)) gs))]))
        else if command = js ''/listar'' \<and> part parts 1 = Some (js ''ofertas'') \<and> given parts 2
        then (case getSelectedGame d (numberAt parts 2) of
                None \<Rightarrow> (d, [sendMessage j GameNotFound])
              | Some g \<Rightarrow>
                  (let os = getOffersByGameId d (game_id g)
                   in if os = [] then (d, [sendMessage j NoOffersForGame])
                      else (d, [sendMessage j
                                  (OfferList (game_name g) (map (\<lambda>x. (offerLine x, offer_id x)) os))])))
        else if command = js ''/listar'' \<and> part parts 1 = Some (js ''metodos'')
        then (d, [sendMessage j
                    (MethodList (methodLines (getPaymentMethods d ''card''))
                       (methodLines (getPaymentMethods d ''mobile'')))])
        else if command = js ''/borrar'' \<and> part parts 1 = Some (js ''juego'') \<and> given parts 2
        then (case getSelectedGame d (numberAt parts 2) of
                None \<Rightarrow> (d, [sendMessage j GameNotFound])
              | Some g \<Rightarrow> (deleteGame (game_id g) d, [sendMessage j (GameDeleted (game_name g))]))
        else if command = js ''/borrar'' \<and> part parts 1 = Some (js ''oferta'') \<and> given parts 2
                \<and> given parts 3
        then (case getSelectedGame d (numberAt parts 2) of
                None \<Rightarrow> (d, [sendMessage j GameNotFound])
              | Some g \<Rightarrow>
                  (case (case numberAt parts 3 of
                           None \<Rightarrow> None
                         | Some offerNumber \<Rightarrow> getOfferByGameAndNumber d (game_id g) offerNumber) of
                     None \<Rightarrow> (d, [sendMessage j AdminOfferNotFound])
                   | Some x \<Rightarrow>
                       (deleteOffer (offer_id x) d, [sendMessage j (OfferDeleted (offer_description x))])))
        else if command = js ''/borrar''
                \<and> (part parts 1 = Some (js ''tarjeta'') \<or> part parts 1 = Some (js ''saldo''))
                \<and> given parts 2
        then (let ty = (if part parts 1 = Some (js ''tarjeta'') then ''card'' else ''mobile'')
              in case (case numberAt parts 2 of
                         None \<Rightarrow> None
                       | Some methodNumber \<Rightarrow> getPaymentMethodByNumber d ty methodNumber) of
                   None \<Rightarrow> (d, [sendMessage j AdminMethodNotFound])
                 | Some m \<Rightarrow>
                     (deletePaymentMethod (pm_id m) d, [sendMessage j (MethodDeleted (pm_label m))]))
        else if command = js ''/completar'' \<and> given parts 1
        then (let requestId = parts ! 1
              in case getRequest d requestId of
                   None \<Rightarrow> (d, [sendMessage j RequestNotFound])
                 | Some request \<Rightarrow>
                     if req_status request = ''completed''
                     then (d, [sendMessage j AlreadyCompleted])
                     else (completeRequest e requestId d,
                           [sendMessage (req_user_jid request)
                              (RechargeCompleted (req_game_name request) (req_offer_desc request)),
                            sendMessage j (MarkedCompleted requestId)]))
        else if command = js ''/cancelar''
        then (clearAdminDialog j d, [sendMessage j DialogCancelled])
        else (d, [sendMessage j UnknownCommand]))"

subsection \<open>The dialog \<open>crear_tabla\<close>: \<open>handleCreateTableDialog\<close>\<close>




datatype handled = Handled bool | HandlerThrew

type_synonym 's dialog_result = "'s db \<times> admin_text sent list \<times> handled"



subsection \<open>The dialog \<open>anadir_ofertas\<close>: \<open>handleAddOffersDialog\<close>\<close>

fun addOffersLoop ::
  "jid \<Rightarrow> nat \<Rightarrow> offer_entry list \<Rightarrow> 's db \<Rightarrow> nat \<Rightarrow> admin_text sent list \<Rightarrow>
   's db \<times> nat \<times> admin_text sent list" where
  "addOffersLoop j gameId [] d success out = (d, success, out)"
| "addOffersLoop j gameId (off # offs) d success out =
    (case createOffer gameId (oe_number off) (oe_desc off) (oe_mobile off) (oe_card off)
            (oe_usd off) d of
       Some d1 \<Rightarrow> addOffersLoop j gameId offs d1 (success + 1) out
     | None \<Rightarrow>
         addOffersLoop j gameId offs d success
           (out @ [sendMessage j (CreateOfferError (oe_desc off))]))"

text \<open>
  The line of an offer, after the test of its length and of its number: the result is
  the entry that is pushed onto \<open>data.offers\<close>, or \<open>None\<close> where the function sends the
  text about prices that were not found.  \<open>idx\<close> runs from the last token to the left.
\<close>

definition parseOfferTail :: "nat \<Rightarrow> jsstring list \<Rightarrow> offer_entry option" where
  "parseOfferTail number parts =
    (let idx0 = length parts - 1;
         numeric = (\<not> isNaN (parseFloat (parts ! idx0)) \<and> isFinite (parts ! idx0));
         usd = (if numeric
                then (case parseFloat (parts ! idx0) of Finite v \<Rightarrow> Some v | _ \<Rightarrow> None)
                else None);
         idx1 = (if numeric then idx0 - 1 else idx0)
     in if idx1 \<ge> 2
        then (let card = parseInt (parts ! idx1);
                  mobile = parseInt (parts ! (idx1 - 1));
                  idx3 = idx1 - 2;
                  desc = joinWith (js '' '') (take idx3 (drop 1 parts))
              in Some \<lparr>oe_number = number, oe_desc = desc, oe_mobile = mobile, oe_card = card,
                       oe_usd = usd\<rparr>)
        else None)"

definition handleAddOffersDialog ::
  "jid \<Rightarrow> admin_dialog \<Rightarrow> jsstring \<Rightarrow> 's db \<Rightarrow> 's dialog_result" where
  "handleAddOffersDialog j dialog text d =
    (if dlg_step dialog = 1
     then (case dlg_data dialog of
             OffersData gameId gameNumber offs \<Rightarrow>
               if toLowerCase text = js ''/fin''
               then (if offs = []
                     then (clearAdminDialog j d, [sendMessage j NoOffersAdded], Handled True)
                     else (let (d1, success, out) = addOffersLoop j gameId offs d 0 []
                           in (clearAdminDialog j d1,
                               out @ [sendMessage j (OffersAdded success)], Handled True)))
               else (let parts = split isWhiteSpace (trim text)
                     in if length parts < 4 then (d, [sendMessage j BadOfferFormat], Handled True)
                        else (case emojiToNumber (parts ! 0) of
                                None \<Rightarrow> (d, [sendMessage j InvalidOfferNumberAdmin], Handled True)
                              | Some number \<Rightarrow>
                                  if number = 0
                                  then (d, [sendMessage j InvalidOfferNumberAdmin], Handled True)
                                  else (case parseOfferTail number parts of
                                          None \<Rightarrow> (d, [sendMessage j NoValidPrices], Handled True)
                                        | Some entry \<Rightarrow>
                                            (setAdminDialog j (dlg_command dialog) (dlg_step dialog)
                                               (OffersData gameId gameNumber (offs @ [entry])) d,
                                             [sendMessage j (OfferAdded (oe_desc entry))],
                                             Handled True))))
           | _ \<Rightarrow> (d, [], HandlerThrew))
     else (d, [], Handled False))"

section \<open>Predicates and example data for the properties\<close>

text \<open>A session of \<open>index.js\<close> after a reset: idle, every selection column \<open>null\<close>.\<close>

definition isReset :: "session \<Rightarrow> bool" where
  "isReset s =
    (step s = ''idle'' \<and> selected_game s = None \<and> selected_offer_id s = None \<and>
     selected_payment_type s = None \<and> selected_payment_number s = None \<and> request_id s = None)"

text \<open>The same for the variant with custom fields.\<close>

definition isReset2 :: "session2 \<Rightarrow> bool" where
  "isReset2 s =
    (step s = ''idle'' \<and> selected_game s = None \<and> selected_offers s = None \<and>
     field_values s = None \<and> current_field s = None \<and> request_id s = None)"

text \<open>The text about an invalid number that each number-reading step of \<open>index.js\<close>
  sends.\<close>

definition invalidSelection :: "string \<Rightarrow> client_text" where
  "invalidSelection st =
    (if st = ''awaiting_game'' then InvalidGameNumber
     else if st = ''awaiting_offer'' then InvalidOfferNumber
     else InvalidMethodNumber)"

text \<open>The first of the numbers that no offer of the list has.\<close>

definition firstInvalid :: "offer list \<Rightarrow> nat list \<Rightarrow> nat option" where
  "firstInvalid os numbers = find (\<lambda>n. find (\<lambda>x. offer_number x = n) os = None) numbers"



text \<open>
  The catalogue of the scenarios in the specification: game A (menu number 1) with the
  offers 1, 2 and 3 and no custom field, game B (menu number 2) with one offer and the
  custom field \<open>player id\<close>, and one card as the only payment method.
\<close>

definition userJid :: jid where
  "userJid = js ''5355@s.whatsapp.net''"

definition adminJid :: jid where
  "adminJid = js ''5399@s.whatsapp.net''"

text \<open>The texts of the scenarios are Basic Latin, Latin-1 and the keycap glyphs, whose code
  units outside Latin-1 (U+FE0F, U+20E3, the two surrogates of the glyph for ten) neither
  table of the runtime changes: on them the tables of the example environment are the
  runtime's.\<close>

definition exampleEnv :: env where
  "exampleEnv =
    \<lparr>ADMIN_JID = adminJid, now = 1700, generateRequestId = js ''REQ-1700-7'',
     uploadScreenshot = Some (js ''https://cdn/REQ-1700-7.png''),
     unicodeLower = toLowerCase, unicodeNFD = latin1NFD\<rparr>"


definition exampleOffer :: "nat \<Rightarrow> nat \<Rightarrow> nat \<Rightarrow> string \<Rightarrow> offer" where
  "exampleOffer i g n desc =
    \<lparr>offer_id = i, offer_game_id = g, offer_number = n, offer_description = js desc,
     price_mobile = Some 100, price_card = Some 150, price_usd = None\<rparr>"

definition exampleDb :: "(jid \<rightharpoonup> 's) \<Rightarrow> request list \<Rightarrow> 's db" where
  "exampleDb sessions reqs =
    \<lparr>games =
       [\<lparr>game_id = 1, game_number = 1, game_name = js ''Game A'', game_description = []\<rparr>,
        \<lparr>game_id = 2, game_number = 2, game_name = js ''Game B'', game_description = []\<rparr>],
     offers =
       [exampleOffer 11 1 1 ''X'', exampleOffer 12 1 2 ''Y'', exampleOffer 13 1 3 ''Z'',
        exampleOffer 21 2 1 ''W''],
     payment_methods =
       [\<lparr>pm_id = 1, pm_type = ''card'', pm_number = 1, pm_label = js ''Card 1'',
         pm_details = [(''card_number'', js ''9200''), (''confirm_number'', js ''55'')]\<rparr>],
     game_fields =
       [\<lparr>field_game_id = 2, field_name = js ''player id'', field_order = 1,
         field_required = True\<rparr>],
     user_sessions = sessions,
     requests = reqs,
     admin_dialogs = Map.empty\<rparr>"

text \<open>A session of \<open>index.js\<close> at a step, with game A, its offer 1 and the card selected.\<close>

definition exampleSession :: "string \<Rightarrow> session" where
  "exampleSession st =
    \<lparr>step = st, selected_game = Some 1, request_id = Some (js ''REQ-1700-7''),
     updated_at = None, selected_offer_id = Some 11, selected_payment_type = Some ''card'',
     selected_payment_number = Some 1\<rparr>"

text \<open>A session of the variant with custom fields, at a step and with a game selected.\<close>

definition exampleSession2 :: "string \<Rightarrow> nat \<Rightarrow> session2" where
  "exampleSession2 st g =
    \<lparr>step = st, selected_game = Some g, request_id = None, updated_at = None,
     selected_offers = Some [21], field_values = Some [], current_field = Some 0\<rparr>"

text \<open>The request that the scenario of \<open>index.js\<close> creates, with a given status.\<close>

definition exampleRequest :: "string \<Rightarrow> request" where
  "exampleRequest st =
    \<lparr>req_id = js ''REQ-1700-7'', req_user_jid = userJid, req_game_name = js ''Game A'',
     req_offer_desc = js ''X'', req_payment_method = js ''Card 1'',
     req_payment_details =
       MethodDetails [(''card_number'', js ''9200''), (''confirm_number'', js ''55'')],
     req_screenshot_url = Some (js ''https://cdn/REQ-1700-7.png''), req_status = st,
     req_completed_at = None\<rparr>"

definition textMessage :: message where
  "textMessage = \<lparr>imageMessage = False, documentMessage = False\<rparr>"

definition imageOnly :: message where
  "imageOnly = \<lparr>imageMessage = True, documentMessage = False\<rparr>"

text \<open>The line that the prompt of the dialog \<open>anadir_ofertas\<close> gives as its example:
  keycap one, \<open>110\<close>, the gem glyph (U+1F48E), \<open>250\<close>, \<open>700\<close>.\<close>

definition promptExampleLine :: jsstring where
  "promptExampleLine =
    [0x31, 0xFE0F, 0x20E3, 0x20] @ js ''110 '' @ [0xD83D, 0xDC8E, 0x20] @ js ''250 700''"

section \<open>Properties of the menu numbers\<close>

lemma unat_digitChar: "d < 10 \<Longrightarrow> unat (digitChar d) = 48 + d"
  unfolding digitChar_def unat_of_nat by simp

lemma isDigit_digitChar: "d < 10 \<Longrightarrow> isDigit (digitChar d)"
  unfolding isDigit_def word_le_nat_alt by (simp add: unat_digitChar)

lemma digitValue_digitChar: "d < 10 \<Longrightarrow> digitValue (digitChar d) = d"
  by (simp add: digitValue_def unat_digitChar)

lemma toString_digits: "list_all isDigit (toString n)"
proof (induction n rule: toString.induct)
  case (1 n)
  show ?case
  proof (cases "n < 10")
    case True
    then show ?thesis
      by (subst toString.simps) (simp add: isDigit_digitChar)
  next
    case False
    with "1" show ?thesis
      by (subst toString.simps) (simp add: isDigit_digitChar)
  qed
qed

lemma toString_not_empty: "toString n \<noteq> []"
  by (subst toString.simps) simp

lemma parseDecimal_snoc: "parseDecimal (ds @ [c]) = 10 * parseDecimal ds + digitValue c"
  by (simp add: parseDecimal_def)

lemma parseDecimal_toString: "parseDecimal (toString n) = n"
proof (induction n rule: toString.induct)
  case (1 n)
  show ?case
  proof (cases "n < 10")
    case True
    then show ?thesis
      by (subst toString.simps) (simp add: parseDecimal_def digitValue_digitChar)
  next
    case False
    then have "parseDecimal (toString (n div 10)) = n div 10"
      using "1" by simp
    with False show ?thesis
      by (subst toString.simps) (simp add: parseDecimal_snoc digitValue_digitChar)
  qed
qed

lemma emojiToNumber_toString: "emojiToNumber (toString n) = Some n"
proof -
  have "filter isDigit (toString n) = toString n"
    using toString_digits [of n] by (simp add: list_all_iff)
  then show ?thesis
    by (simp add: emojiToNumber_def toString_not_empty parseDecimal_toString)
qed

lemma emojiToNumber_keycaps:
  "list_all (\<lambda>n. emojiToNumber (numberToEmoji n) = Some n) [0..<10]"
  by code_simp

lemma emojiToNumber_keycap:
  "n < 10 \<Longrightarrow> emojiToNumber (numberToEmoji n) = Some n"
  using emojiToNumber_keycaps unfolding list_all_iff by simp

text \<open>
  Claim C3.  Rendering a menu number and parsing it back gives the number again for every
  number except ten: the glyph for ten has no ASCII digit in it, so the parser answers
  \<open>null\<close>.  The round trip over the supported range 0 to 10 therefore fails at 10 and
  only there.
\<close>

theorem emojiToNumber_numberToEmoji:
  "emojiToNumber (numberToEmoji n) = (if n = 10 then None else Some n)"
proof -
  consider "n < 10" | "n = 10" | "10 < n"
    by linarith
  then show ?thesis
  proof cases
    case 1
    then show ?thesis by (simp add: emojiToNumber_keycap)
  next
    case 2
    then show ?thesis
      by (simp add: emojiToNumber_def numberToEmoji_def emojiMap_def isDigit_def)
  next
    case 3
    then show ?thesis
      by (simp add: numberToEmoji_def emojiMap_def emojiToNumber_toString)
  qed
qed

section \<open>Facts about strings and sessions\<close>

lemma of_char_word_inj: "(of_char c :: jschar) = of_char d \<Longrightarrow> c = d"
proof -
  assume "(of_char c :: jschar) = of_char d"
  then have "(of_nat (of_char c) :: jschar) = of_nat (of_char d)"
    by (simp add: of_nat_of_char)
  then have "take_bit 16 (of_char c :: nat) = take_bit 16 (of_char d :: nat)"
    by (simp add: word_of_nat_eq_iff)
  moreover have "(of_char c :: nat) < 2 ^ 16"
    by (rule less_trans [OF nat_of_char_less_256]) simp
  moreover have "(of_char d :: nat) < 2 ^ 16"
    by (rule less_trans [OF nat_of_char_less_256]) simp
  ultimately show "c = d"
    by (simp add: take_bit_nat_eq_self)
qed

lemma inj_js: "inj js"
  unfolding js_def by (rule inj_mapI) (auto intro: injI of_char_word_inj)

lemma js_eq_iff [simp]: "js a = js b \<longleftrightarrow> a = b"
  using inj_js by (auto dest: injD)


lemma split_not_empty: "split sep s \<noteq> []"
proof -
  have "splitRun sep b s \<noteq> []" for b
    by (induction s arbitrary: b) (auto split: list.splits)
  then show ?thesis
    by (simp add: split_def)
qed

section \<open>The number-reading steps of \<open>index.js\<close>\<close>

lemma getUserSession_existing:
  "user_sessions d j = Some sess \<Longrightarrow> getUserSession j d = (sess, d)"
  by (simp add: getUserSession_def)

lemma filter_dropWhile_disjoint:
  "(\<And>x. P x \<Longrightarrow> \<not> Q x) \<Longrightarrow> filter P (dropWhile Q xs) = filter P xs"
  by (induction xs) auto

lemma digit_not_space: "isDigit c \<Longrightarrow> \<not> isWhiteSpace c"
  unfolding isDigit_def isWhiteSpace_def by unat_arith

lemma isDigit_lowerUnit: "isDigit (lowerUnit c) = isDigit c"
  unfolding isDigit_def lowerUnit_def by unat_arith

lemma filter_isDigit_trim: "filter isDigit (trim s) = filter isDigit s"
  unfolding trim_def
  by (simp add: rev_filter [symmetric] filter_dropWhile_disjoint digit_not_space)

lemma filter_isDigit_lower: "filter isDigit (toLowerCase s) = map lowerUnit (filter isDigit s)"
  unfolding toLowerCase_def by (simp add: filter_map comp_def isDigit_lowerUnit)

lemma digits_survive:
  "emojiToNumber text = Some n \<Longrightarrow> filter isDigit (toLowerCase (trim text)) \<noteq> []"
  by (auto simp: emojiToNumber_def Let_def filter_isDigit_lower filter_isDigit_trim split: if_splits)

lemma no_digit_cancelar: "filter isDigit (js ''cancelar'') = []"
  by (simp add: js_def isDigit_def)

lemma no_digit_volver: "filter isDigit (js ''volver'') = []"
  by (simp add: js_def isDigit_def)

lemma number_not_keyword:
  assumes "emojiToNumber text = Some n"
  shows "toLowerCase (trim text) \<noteq> js ''cancelar''" and "toLowerCase (trim text) \<noteq> js ''volver''"
  using digits_survive [OF assms] no_digit_cancelar no_digit_volver by auto

lemma zero_or_unparsable:
  assumes sess: "user_sessions d j = Some sess"
    and st: "step sess = ''awaiting_game'' \<or> step sess = ''awaiting_offer'' \<or> step sess = ''awaiting_payment_choice''"
    and kw: "toLowerCase (trim text) \<noteq> js ''cancelar''" "toLowerCase (trim text) \<noteq> js ''volver''"
    and num: "emojiToNumber text = None \<or> emojiToNumber text = Some 0"
  shows "handleClientMessage e msg j text d = (d, [sendWithCancelHint j (invalidSelection (step sess))])"
  using st num
  by (auto simp: handleClientMessage_def getUserSession_existing [OF sess] kw invalidSelection_def
      awaiting_game_def awaiting_offer_def awaiting_payment_choice_def Let_def)

text \<open>
  Claim C10.  In the steps of \<open>index.js\<close> that read a menu number (\<open>awaiting_game\<close>,
  \<open>awaiting_offer\<close>, \<open>awaiting_payment_choice\<close>), a text whose digits read as 0 is
  answered with the text about an invalid number of that step and the store stays as it
  is, whatever the catalogue holds; a text without any digit (that is not \<open>cancelar\<close> or
  \<open>volver\<close>) has the very same result.
\<close>

theorem zero_index_rejected:
  assumes "user_sessions d j = Some sess"
    and "step sess = ''awaiting_game'' \<or> step sess = ''awaiting_offer'' \<or> step sess = ''awaiting_payment_choice''"
    and "emojiToNumber text = Some 0"
  shows "handleClientMessage e msg j text d = (d, [sendWithCancelHint j (invalidSelection (step sess))])
       \<and> (emojiToNumber text' = None \<and> toLowerCase (trim text') \<noteq> js ''cancelar''
            \<and> toLowerCase (trim text') \<noteq> js ''volver''
          \<longrightarrow> handleClientMessage e msg j text' d = handleClientMessage e msg j text d)"
  using zero_or_unparsable [OF assms(1) assms(2) number_not_keyword [OF assms(3)]]
    zero_or_unparsable [OF assms(1) assms(2), of text'] assms(3)
  by simp

lemma keycap_zero: "emojiToNumber [0x30, 0xFE0F, 0x20E3] = Some 0"
  by (simp add: emojiToNumber_def isDigit_def parseDecimal_def digitValue_def)

lemma hola: "emojiToNumber (js ''hola'') = None" "toLowerCase (trim (js ''hola'')) \<noteq> js ''cancelar''"
  "toLowerCase (trim (js ''hola'')) \<noteq> js ''volver''"
  by (simp_all add: emojiToNumber_def isDigit_def js_def toLowerCase_def trim_def isWhiteSpace_def lowerUnit_def)

theorem zero_index_rejected_witness:
  "emojiToNumber [0x30, 0xFE0F, 0x20E3] = Some 0
   \<and> handleClientMessage exampleEnv textMessage userJid [0x30, 0xFE0F, 0x20E3]
        (exampleDb [userJid \<mapsto> exampleSession ''awaiting_offer''] [])
      = (exampleDb [userJid \<mapsto> exampleSession ''awaiting_offer''] [],
         [sendWithCancelHint userJid InvalidOfferNumber])
   \<and> handleClientMessage exampleEnv textMessage userJid (js ''hola'')
        (exampleDb [userJid \<mapsto> exampleSession ''awaiting_offer''] [])
      = (exampleDb [userJid \<mapsto> exampleSession ''awaiting_offer''] [],
         [sendWithCancelHint userJid InvalidOfferNumber])"
  using zero_index_rejected [of "exampleDb [userJid \<mapsto> exampleSession ''awaiting_offer''] []" userJid
      "exampleSession ''awaiting_offer''" "[0x30, 0xFE0F, 0x20E3]" exampleEnv textMessage "js ''hola''"]
    keycap_zero hola
  by (simp add: exampleDb_def exampleSession_def invalidSelection_def)

section \<open>The choice of the payment type\<close>

lemma lower_one: "toLowerCase (js ''1'') = js ''1''" "toLowerCase (js ''2'') = js ''2''"
  by (simp_all add: js_def toLowerCase_def lowerUnit_def)

text \<open>
  Claim C5, as amended.  In the step \<open>awaiting_payment_method\<close> of \<open>index.js\<close>, a text
  that after trimming is neither \<open>1\<close> nor \<open>2\<close> (and is not \<open>cancelar\<close> or \<open>volver\<close>) is
  answered with the text about the invalid choice, and the choice of a type without any
  payment method with the text that asks to try the other type; in both cases the store,
  and with it the step of the session, stays as it is.
\<close>

theorem awaiting_payment_method_failures:
  assumes sess: "user_sessions d j = Some sess"
    and st: "step sess = ''awaiting_payment_method''"
  shows "(trim text \<noteq> js ''1'' \<and> trim text \<noteq> js ''2'' \<and>
          toLowerCase (trim text) \<noteq> js ''cancelar'' \<and> toLowerCase (trim text) \<noteq> js ''volver''
          \<longrightarrow> handleClientMessage e msg j text d = (d, [sendWithCancelHint j InvalidPaymentType]))
       \<and> (trim text = js ''1'' \<and> getPaymentMethods d ''card'' = []
          \<longrightarrow> handleClientMessage e msg j text d = (d, [sendWithCancelHint j NoMethodsOfType]))
       \<and> (trim text = js ''2'' \<and> getPaymentMethods d ''mobile'' = []
          \<longrightarrow> handleClientMessage e msg j text d = (d, [sendWithCancelHint j NoMethodsOfType]))"
proof (intro conjI impI)
  assume "trim text \<noteq> js ''1'' \<and> trim text \<noteq> js ''2'' \<and>
          toLowerCase (trim text) \<noteq> js ''cancelar'' \<and> toLowerCase (trim text) \<noteq> js ''volver''"
  then show "handleClientMessage e msg j text d = (d, [sendWithCancelHint j InvalidPaymentType])"
    by (simp add: handleClientMessage_def getUserSession_existing [OF sess] st
        awaiting_payment_method_def)
next
  assume "trim text = js ''1'' \<and> getPaymentMethods d ''card'' = []"
  then show "handleClientMessage e msg j text d = (d, [sendWithCancelHint j NoMethodsOfType])"
    by (simp add: handleClientMessage_def getUserSession_existing [OF sess] st
        awaiting_payment_method_def lower_one)
next
  assume "trim text = js ''2'' \<and> getPaymentMethods d ''mobile'' = []"
  then show "handleClientMessage e msg j text d = (d, [sendWithCancelHint j NoMethodsOfType])"
    by (simp add: handleClientMessage_def getUserSession_existing [OF sess] st
        awaiting_payment_method_def lower_one)
qed

lemma example_no_mobile: "getPaymentMethods (exampleDb ss rs) ''mobile'' = []"
  by (simp add: getPaymentMethods_def exampleDb_def)

lemma trim_two: "trim (js ''2'') = js ''2''"
  by (simp add: trim_def js_def isWhiteSpace_def)

text \<open>Claim C5 as stated fails: with no mobile balance configured, the answer \<open>2\<close> leaves the
  session in \<open>awaiting_payment_method\<close>; it is not reset to \<open>idle\<close>.\<close>

theorem no_methods_keeps_step:
  "getPaymentMethods (exampleDb [userJid \<mapsto> exampleSession ''awaiting_payment_method''] []) ''mobile'' = []
   \<and> map_option step
       (user_sessions
          (fst (handleClientMessage exampleEnv textMessage userJid (js ''2'')
                 (exampleDb [userJid \<mapsto> exampleSession ''awaiting_payment_method''] [])))
          userJid)
     = Some ''awaiting_payment_method''
   \<and> snd (handleClientMessage exampleEnv textMessage userJid (js ''2'')
            (exampleDb [userJid \<mapsto> exampleSession ''awaiting_payment_method''] []))
     = [sendWithCancelHint userJid NoMethodsOfType]"
  by (simp add: handleClientMessage_def getUserSession_def exampleDb_def exampleSession_def
      awaiting_payment_method_def trim_two lower_one getPaymentMethods_def
      Let_def)

lemma trim_hola: "trim (js ''hola'') \<noteq> js ''1''" "trim (js ''hola'') \<noteq> js ''2''"
  by (simp_all add: trim_def js_def isWhiteSpace_def)

lemma example_session:
  "user_sessions (exampleDb [userJid \<mapsto> s] rs) userJid = Some s"
  by (simp add: exampleDb_def)

lemma example_step: "step (exampleSession st) = st"
  by (simp add: exampleSession_def)

theorem awaiting_payment_method_failures_witness:
  "handleClientMessage exampleEnv textMessage userJid (js ''hola'')
     (exampleDb [userJid \<mapsto> exampleSession ''awaiting_payment_method''] [])
   = (exampleDb [userJid \<mapsto> exampleSession ''awaiting_payment_method''] [],
      [sendWithCancelHint userJid InvalidPaymentType])
   \<and> handleClientMessage exampleEnv textMessage userJid (js ''2'')
     (exampleDb [userJid \<mapsto> exampleSession ''awaiting_payment_method''] [])
   = (exampleDb [userJid \<mapsto> exampleSession ''awaiting_payment_method''] [],
      [sendWithCancelHint userJid NoMethodsOfType])"
  using awaiting_payment_method_failures [OF example_session [where rs = "[]"] example_step,
      where ?text = "js ''hola''" and e = exampleEnv and msg = textMessage]
    awaiting_payment_method_failures [OF example_session [where rs = "[]"] example_step,
      where ?text = "js ''2''" and e = exampleEnv and msg = textMessage]
  by (simp add: hola trim_hola trim_two example_no_mobile)

section \<open>Requests: created once, completed once\<close>

lemma requests_updateUserSession [simp]:
  "requests (updateUserSession e j f d) = requests d"
  by (simp add: updateUserSession_def split: option.splits)

lemma requests_getUserSession [simp]:
  "requests (snd (getUserSession j d)) = requests d"
  by (simp add: getUserSession_def split: option.splits)

lemma sendMainMenu_no_confirmation:
  "sendMessage j' (RequestSent rid) \<notin> set (sendMainMenu j d)"
  by (simp add: sendMainMenu_def sendMessage_def Let_def)

lemma awaiting_game_quiet:
  "requests (fst (awaiting_game e j text d)) = requests d"
  "sendMessage j' (RequestSent rid) \<notin> set (snd (awaiting_game e j text d))"
  by (simp_all add: awaiting_game_def Let_def sendMessage_def sendWithCancelHint_def
      split: option.splits)

lemma awaiting_offer_quiet:
  "requests (fst (awaiting_offer e j text sess d)) = requests d"
  "sendMessage j' (RequestSent rid) \<notin> set (snd (awaiting_offer e j text sess d))"
  by (simp_all add: awaiting_offer_def Let_def sendMessage_def sendWithCancelHint_def
      split: option.splits)

lemma awaiting_payment_method_quiet:
  "requests (fst (awaiting_payment_method e j text d)) = requests d"
  "sendMessage j' (RequestSent rid) \<notin> set (snd (awaiting_payment_method e j text d))"
  by (simp_all add: awaiting_payment_method_def Let_def sendMessage_def sendWithCancelHint_def)

lemma awaiting_payment_choice_quiet:
  "requests (fst (awaiting_payment_choice e j text sess d)) = requests d"
  "sendMessage j' (RequestSent rid) \<notin> set (snd (awaiting_payment_choice e j text sess d))"
  by (simp_all add: awaiting_payment_choice_def Let_def sendMessage_def sendWithCancelHint_def
      split: option.splits)

lemma handleBack_quiet:
  "requests (fst (handleBack e j sess d)) = requests d"
  "sendMessage j' (RequestSent rid) \<notin> set (snd (handleBack e j sess d))"
  by (simp_all add: handleBack_def Let_def sendMessage_def sendWithCancelHint_def
      sendMainMenu_def split: option.splits)

text \<open>The step that ends the flow: either nothing is inserted and no confirmation goes
  out, or the request of the session is inserted as pending and confirmed.\<close>

lemma awaiting_screenshot_cases:
  "(requests (fst (awaiting_screenshot e msg j sess d)) = requests d
      \<and> (\<forall>rid. sendMessage j (RequestSent rid) \<notin> set (snd (awaiting_screenshot e msg j sess d))))
   \<or> (\<exists>r. requests (fst (awaiting_screenshot e msg j sess d)) = requests d @ [r]
        \<and> request_id sess = Some (req_id r) \<and> req_id r \<notin> set (map req_id (requests d))
        \<and> req_status r = ''pending'' \<and> req_user_jid r = j
        \<and> snd (awaiting_screenshot e msg j sess d)
            = [sendMessage (ADMIN_JID e)
                 (NewRequest (req_id r) j (req_game_name r) (req_offer_desc r)
                    (req_payment_method r) (the (req_screenshot_url r))),
               sendMessage j (RequestSent (req_id r))]
        \<and> user_sessions (fst (awaiting_screenshot e msg j sess d))
            = user_sessions (updateUserSession e j resetSession d))"
  by (auto simp: awaiting_screenshot_def Let_def sendMessage_def sendWithCancelHint_def
      createRequest_def updateUserSession_def split: option.splits if_splits)

lemma handleClientMessage_orders:
  "(requests (fst (handleClientMessage e msg j text d)) = requests d
      \<and> (\<forall>rid. sendMessage j (RequestSent rid) \<notin> set (snd (handleClientMessage e msg j text d))))
   \<or> (\<exists>r. requests (fst (handleClientMessage e msg j text d)) = requests d @ [r]
        \<and> req_id r \<notin> set (map req_id (requests d))
        \<and> req_status r = ''pending'' \<and> req_user_jid r = j
        \<and> snd (handleClientMessage e msg j text d)
            = [sendMessage (ADMIN_JID e)
                 (NewRequest (req_id r) j (req_game_name r) (req_offer_desc r)
                    (req_payment_method r) (the (req_screenshot_url r))),
               sendMessage j (RequestSent (req_id r))])"
proof -
  obtain sess d0 where g: "getUserSession j d = (sess, d0)"
    by (cases "getUserSession j d")
  have r0: "requests d0 = requests d"
    using requests_getUserSession [of j d] g by simp
  let ?lower = "toLowerCase (trim text)"
  consider (kcancel) "?lower = js ''cancelar''"
    | (kback) "?lower \<noteq> js ''cancelar''" "?lower = js ''volver''"
    | (shot) "?lower \<noteq> js ''cancelar''" "?lower \<noteq> js ''volver''" "step sess = ''awaiting_screenshot''"
    | (other) "?lower \<noteq> js ''cancelar''" "?lower \<noteq> js ''volver''" "step sess \<noteq> ''awaiting_screenshot''"
    by blast
  then show ?thesis
  proof cases
    case kcancel
    then show ?thesis
      by (simp add: handleClientMessage_def g r0 sendMainMenu_no_confirmation)
  next
    case kback
    then show ?thesis
      by (simp add: handleClientMessage_def g r0 handleBack_quiet)
  next
    case shot
    then have "handleClientMessage e msg j text d = awaiting_screenshot e msg j sess d0"
      by (simp add: handleClientMessage_def g)
    then show ?thesis
      using awaiting_screenshot_cases [of e msg j sess d0] r0 by auto
  next
    case other
    then show ?thesis
      by (simp add: handleClientMessage_def g r0 sendMainMenu_no_confirmation
          awaiting_game_quiet awaiting_offer_quiet awaiting_payment_method_quiet
          awaiting_payment_choice_quiet)
  qed
qed

lemma completar_not_other:
  "js ''/completar'' \<noteq> anadir"
  by (simp add: anadir_def js_def)

text \<open>The branch of \<open>/completar\<close> is the one that \<open>handleAdminCommand\<close> takes for a text
  whose first word, in lower case, is \<open>/completar\<close> and which has a second word.\<close>

lemma handleAdminCommand_completar:
  assumes "toLowerCase (split isWhiteSpace (trim text) ! 0) = js ''/completar''"
    and "given (split isWhiteSpace (trim text)) 1"
    and "split isWhiteSpace (trim text) ! 1 = rid"
  shows "handleAdminCommand e j text d =
    (case getRequest d rid of
       None \<Rightarrow> (d, [sendMessage j RequestNotFound])
     | Some request \<Rightarrow>
         if req_status request = ''completed'' then (d, [sendMessage j AlreadyCompleted])
         else (completeRequest e rid d,
               [sendMessage (req_user_jid request)
                  (RechargeCompleted (req_game_name request) (req_offer_desc request)),
                sendMessage j (MarkedCompleted rid)]))"
  using assms by (simp add: handleAdminCommand_def Let_def completar_not_other)

lemma find_completed:
  "find (\<lambda>r. req_id r = rid)
     (map (\<lambda>r. if req_id r = rid then r\<lparr>req_status := st, req_completed_at := t\<rparr> else r) rs)
   = map_option (\<lambda>r. r\<lparr>req_status := st, req_completed_at := t\<rparr>) (find (\<lambda>r. req_id r = rid) rs)"
  by (induction rs) auto

lemma getRequest_completeRequest:
  "getRequest (completeRequest e rid d) rid
   = map_option (\<lambda>r. r\<lparr>req_status := ''completed'', req_completed_at := Some (now e)\<rparr>) (getRequest d rid)"
  by (simp add: getRequest_def completeRequest_def find_completed)

lemma map_unchanged_others:
  "map req_id (requests (completeRequest e rid d)) = map req_id (requests d)"
  by (simp add: completeRequest_def comp_def)

lemma getRequest_other:
  "rid' \<noteq> rid \<Longrightarrow> getRequest (completeRequest e rid d) rid' = getRequest d rid'"
proof -
  assume ne: "rid' \<noteq> rid"
  have "find (\<lambda>r. req_id r = rid')
          (map (\<lambda>r. if req_id r = rid then r\<lparr>req_status := st, req_completed_at := t\<rparr> else r) rs)
        = find (\<lambda>r. req_id r = rid') rs" for rs st t
    using ne by (induction rs) auto
  then show ?thesis
    by (simp add: getRequest_def completeRequest_def)
qed


text \<open>
  Claim C1.  Handling one message of a client in \<open>index.js\<close> leaves the table of requests
  as it is unless the flow completes (the confirmation goes out to the user), and then
  exactly one request is appended, with status \<open>pending\<close> and owned by that user.  The
  command \<open>/completar\<close> followed by an identifier answers that the request was not found
  and changes nothing when no request has the identifier; on a pending request it sets the
  status to \<open>completed\<close> and sends the notice of completion to the user who owns the
  request; a second \<open>/completar\<close> with the same identifier answers that the request was
  already completed and leaves the store as it is.
\<close>

theorem one_pending_order_completed_once:
  "((\<forall>rid. sendMessage j (RequestSent rid) \<notin> set (snd (handleClientMessage e msg j text d)))
      \<longrightarrow> requests (fst (handleClientMessage e msg j text d)) = requests d)
   \<and> (sendMessage j (RequestSent rid) \<in> set (snd (handleClientMessage e msg j text d))
      \<longrightarrow> (\<exists>r. requests (fst (handleClientMessage e msg j text d)) = requests d @ [r]
            \<and> req_id r = rid \<and> req_status r = ''pending'' \<and> req_user_jid r = j))
   \<and> (toLowerCase (split isWhiteSpace (trim cmd) ! 0) = js ''/completar''
        \<and> given (split isWhiteSpace (trim cmd)) 1 \<and> split isWhiteSpace (trim cmd) ! 1 = oid
      \<longrightarrow> (getRequest a oid = None
            \<longrightarrow> handleAdminCommand e' op cmd a = (a, [sendMessage op RequestNotFound]))
        \<and> (\<forall>r. getRequest a oid = Some r \<and> req_status r = ''completed''
            \<longrightarrow> handleAdminCommand e' op cmd a = (a, [sendMessage op AlreadyCompleted]))
        \<and> (\<forall>r. getRequest a oid = Some r \<and> req_status r = ''pending''
            \<longrightarrow> handleAdminCommand e' op cmd a
                  = (completeRequest e' oid a,
                     [sendMessage (req_user_jid r)
                        (RechargeCompleted (req_game_name r) (req_offer_desc r)),
                      sendMessage op (MarkedCompleted oid)])
              \<and> getRequest (completeRequest e' oid a) oid
                  = Some (r\<lparr>req_status := ''completed'', req_completed_at := Some (now e')\<rparr>)
              \<and> handleAdminCommand e'' op cmd (completeRequest e' oid a)
                  = (completeRequest e' oid a, [sendMessage op AlreadyCompleted])))"
proof (intro conjI impI allI)
  assume "\<forall>rid. sendMessage j (RequestSent rid) \<notin> set (snd (handleClientMessage e msg j text d))"
  then show "requests (fst (handleClientMessage e msg j text d)) = requests d"
    using handleClientMessage_orders [of e msg j "text" d] by auto
next
  assume "sendMessage j (RequestSent rid) \<in> set (snd (handleClientMessage e msg j text d))"
  then show "\<exists>r. requests (fst (handleClientMessage e msg j text d)) = requests d @ [r]
            \<and> req_id r = rid \<and> req_status r = ''pending'' \<and> req_user_jid r = j"
    using handleClientMessage_orders [of e msg j "text" d] by (auto simp: sendMessage_def)
next
  assume p: "toLowerCase (split isWhiteSpace (trim cmd) ! 0) = js ''/completar''
        \<and> given (split isWhiteSpace (trim cmd)) 1 \<and> split isWhiteSpace (trim cmd) ! 1 = oid"
  note c = handleAdminCommand_completar [OF conjunct1 [OF p] conjunct1 [OF conjunct2 [OF p]]
      conjunct2 [OF conjunct2 [OF p]]]
  {
    assume "getRequest a oid = None"
    then show "handleAdminCommand e' op cmd a = (a, [sendMessage op RequestNotFound])"
      by (simp add: c)
  next
    fix r
    assume "getRequest a oid = Some r \<and> req_status r = ''completed''"
    then show "handleAdminCommand e' op cmd a = (a, [sendMessage op AlreadyCompleted])"
      by (simp add: c)
  next
    fix r
    assume r: "getRequest a oid = Some r \<and> req_status r = ''pending''"
    then show "handleAdminCommand e' op cmd a
                  = (completeRequest e' oid a,
                     [sendMessage (req_user_jid r)
                        (RechargeCompleted (req_game_name r) (req_offer_desc r)),
                      sendMessage op (MarkedCompleted oid)])"
      by (simp add: c)
    from r show "getRequest (completeRequest e' oid a) oid
                  = Some (r\<lparr>req_status := ''completed'', req_completed_at := Some (now e')\<rparr>)"
      by (simp add: getRequest_completeRequest)
    from r show "handleAdminCommand e'' op cmd (completeRequest e' oid a)
                  = (completeRequest e' oid a, [sendMessage op AlreadyCompleted])"
      by (simp add: c getRequest_completeRequest)
  }
qed

lemma empty_text_lower:
  "toLowerCase (trim []) \<noteq> js ''cancelar''" "toLowerCase (trim []) \<noteq> js ''volver''"
  by (simp_all add: toLowerCase_def trim_def js_def)

lemma example_screenshot_run:
  "handleClientMessage exampleEnv imageOnly userJid []
     (exampleDb [userJid \<mapsto> exampleSession ''awaiting_screenshot''] [])
   = (updateUserSession exampleEnv userJid resetSession
        (exampleDb [userJid \<mapsto> exampleSession ''awaiting_screenshot''] [exampleRequest ''pending'']),
      [sendMessage adminJid
         (NewRequest (js ''REQ-1700-7'') userJid (js ''Game A'') (js ''X'') (js ''Card 1'')
            (js ''https://cdn/REQ-1700-7.png'')),
       sendMessage userJid (RequestSent (js ''REQ-1700-7''))])"
  by (simp add: handleClientMessage_def getUserSession_def empty_text_lower
      awaiting_screenshot_def imageOnly_def exampleEnv_def exampleDb_def exampleSession_def
      exampleRequest_def exampleOffer_def getSelectedGame_def getGameByNumber_def
      getSelectedOffer_def getOfferById_def getSelectedMethod_def getPaymentMethodByNumber_def
      createRequest_def Let_def)

lemma completar_parts:
  "split isWhiteSpace (trim (js ''/completar REQ-1700-7'')) = [js ''/completar'', js ''REQ-1700-7'']"
  "split isWhiteSpace (trim (js ''/completar REQ-0'')) = [js ''/completar'', js ''REQ-0'']"
  "toLowerCase (js ''/completar'') = js ''/completar''"
  by (simp_all add: js_def split_def trim_def isWhiteSpace_def toLowerCase_def lowerUnit_def)

lemma given_second: "given [a, js ''REQ-1700-7''] (Suc 0)" "given [a, js ''REQ-0''] (Suc 0)"
  by (simp_all add: given_def part_def js_def)

lemma example_getRequest:
  "getRequest (exampleDb ss [exampleRequest st]) (js ''REQ-1700-7'') = Some (exampleRequest st)"
  "getRequest (exampleDb ss [exampleRequest st]) (js ''REQ-0'') = None"
  by (simp_all add: getRequest_def exampleDb_def exampleRequest_def)

lemma example_requests: "requests (exampleDb ss rs) = rs"
  by (simp add: exampleDb_def)

lemma example_status: "req_status (exampleRequest st) = st" "req_user_jid (exampleRequest st) = userJid"
  by (simp_all add: exampleRequest_def)

theorem one_pending_order_completed_once_witness:
  "(\<exists>r. requests (fst (handleClientMessage exampleEnv imageOnly userJid []
                (exampleDb [userJid \<mapsto> exampleSession ''awaiting_screenshot''] [])))
          = [] @ [r]
        \<and> req_id r = js ''REQ-1700-7'' \<and> req_status r = ''pending'' \<and> req_user_jid r = userJid)
   \<and> handleAdminCommand exampleEnv adminJid (js ''/completar REQ-0'')
        (exampleDb (Map.empty :: jid \<rightharpoonup> session) [exampleRequest ''pending''])
      = (exampleDb Map.empty [exampleRequest ''pending''], [sendMessage adminJid RequestNotFound])
   \<and> handleAdminCommand exampleEnv adminJid (js ''/completar REQ-1700-7'')
        (exampleDb (Map.empty :: jid \<rightharpoonup> session) [exampleRequest ''pending''])
      = (completeRequest exampleEnv (js ''REQ-1700-7'') (exampleDb Map.empty [exampleRequest ''pending'']),
         [sendMessage userJid (RechargeCompleted (js ''Game A'') (js ''X'')),
          sendMessage adminJid (MarkedCompleted (js ''REQ-1700-7''))])
   \<and> handleAdminCommand exampleEnv adminJid (js ''/completar REQ-1700-7'')
        (completeRequest exampleEnv (js ''REQ-1700-7'')
           (exampleDb (Map.empty :: jid \<rightharpoonup> session) [exampleRequest ''pending'']))
      = (completeRequest exampleEnv (js ''REQ-1700-7'') (exampleDb Map.empty [exampleRequest ''pending'']),
         [sendMessage adminJid AlreadyCompleted])"
proof -
  have sent: "sendMessage userJid (RequestSent (js ''REQ-1700-7''))
      \<in> set (snd (handleClientMessage exampleEnv imageOnly userJid []
            (exampleDb [userJid \<mapsto> exampleSession ''awaiting_screenshot''] [])))"
    by (simp add: example_screenshot_run)
  note t = one_pending_order_completed_once
  have a: "\<exists>r. requests (fst (handleClientMessage exampleEnv imageOnly userJid []
                (exampleDb [userJid \<mapsto> exampleSession ''awaiting_screenshot''] [])))
          = [] @ [r]
        \<and> req_id r = js ''REQ-1700-7'' \<and> req_status r = ''pending'' \<and> req_user_jid r = userJid"
    using t [THEN conjunct2, THEN conjunct1, THEN mp, OF sent]
    by (simp add: example_requests)
  have b: "handleAdminCommand exampleEnv adminJid (js ''/completar REQ-0'')
        (exampleDb (Map.empty :: jid \<rightharpoonup> session) [exampleRequest ''pending''])
      = (exampleDb Map.empty [exampleRequest ''pending''], [sendMessage adminJid RequestNotFound])"
    using t [where cmd = "js ''/completar REQ-0''" and oid = "js ''REQ-0''"
        and a = "exampleDb (Map.empty :: jid \<rightharpoonup> session) [exampleRequest ''pending'']"
        and e' = exampleEnv and op = adminJid,
        THEN conjunct2, THEN conjunct2]
    by (simp add: completar_parts given_second example_getRequest)
  have c: "handleAdminCommand exampleEnv adminJid (js ''/completar REQ-1700-7'')
        (exampleDb (Map.empty :: jid \<rightharpoonup> session) [exampleRequest ''pending''])
      = (completeRequest exampleEnv (js ''REQ-1700-7'') (exampleDb Map.empty [exampleRequest ''pending'']),
         [sendMessage userJid (RechargeCompleted (js ''Game A'') (js ''X'')),
          sendMessage adminJid (MarkedCompleted (js ''REQ-1700-7''))])
   \<and> handleAdminCommand exampleEnv adminJid (js ''/completar REQ-1700-7'')
        (completeRequest exampleEnv (js ''REQ-1700-7'')
           (exampleDb (Map.empty :: jid \<rightharpoonup> session) [exampleRequest ''pending'']))
      = (completeRequest exampleEnv (js ''REQ-1700-7'') (exampleDb Map.empty [exampleRequest ''pending'']),
         [sendMessage adminJid AlreadyCompleted])"
    using t [where cmd = "js ''/completar REQ-1700-7''" and oid = "js ''REQ-1700-7''"
        and a = "exampleDb (Map.empty :: jid \<rightharpoonup> session) [exampleRequest ''pending'']"
        and e' = exampleEnv and e'' = exampleEnv and op = adminJid,
        THEN conjunct2, THEN conjunct2]
    by (simp add: completar_parts given_second example_getRequest example_status)
       (simp add: exampleRequest_def)
  from a b c show ?thesis by simp
qed

section \<open>Resetting the session\<close>

lemma getUserSession_row:
  "user_sessions (snd (getUserSession j d)) j = Some (fst (getUserSession j d))"
  by (simp add: getUserSession_def split: option.splits)

lemma getUserSession2_row:
  "user_sessions (snd (getUserSession2 j d)) j = Some (fst (getUserSession2 j d))"
  by (simp add: getUserSession2_def split: option.splits)

lemma getUserSession2_existing:
  "user_sessions d j = Some sess \<Longrightarrow> getUserSession2 j d = (sess, d)"
  by (simp add: getUserSession2_def)

lemma updateUserSession_row:
  "user_sessions d j = Some s \<Longrightarrow>
   user_sessions (updateUserSession e j f d) j = Some ((f s)\<lparr>updated_at := Some (now e)\<rparr>)"
  by (simp add: updateUserSession_def)

lemma updateUserSession_keeps_row:
  "user_sessions d j \<noteq> None \<Longrightarrow> user_sessions (updateUserSession e j f d) j \<noteq> None"
  by (auto simp: updateUserSession_def)

lemma isReset_resetSession: "isReset ((resetSession s)\<lparr>updated_at := t\<rparr>)"
  by (simp add: isReset_def resetSession_def)

lemma isReset2_resetSession2: "isReset2 ((resetSession2 s)\<lparr>updated_at := t\<rparr>)"
  by (simp add: isReset2_def resetSession2_def)

lemma reset_row:
  "user_sessions d j \<noteq> None \<Longrightarrow>
   \<exists>s. user_sessions (updateUserSession e j resetSession d) j = Some s \<and> isReset s"
  by (auto simp: updateUserSession_row isReset_resetSession)

lemma reset2_row:
  "user_sessions d j \<noteq> None \<Longrightarrow>
   \<exists>s. user_sessions (updateUserSession e j resetSession2 d) j = Some s \<and> isReset2 s"
  by (auto simp: updateUserSession_row isReset2_resetSession2)

text \<open>Reading the catalogue after a session was written.\<close>

lemma catalogue_updateUserSession [simp]:
  "games (updateUserSession e j f d) = games d"
  "offers (updateUserSession e j f d) = offers d"
  "payment_methods (updateUserSession e j f d) = payment_methods d"
  "game_fields (updateUserSession e j f d) = game_fields d"
  "admin_dialogs (updateUserSession e j f d) = admin_dialogs d"
  by (simp_all add: updateUserSession_def split: option.splits)

lemma reads_updateUserSession [simp]:
  "getSelectedGame (updateUserSession e j f d) sel = getSelectedGame d sel"
  "getGameFields (updateUserSession e j f d) gid = getGameFields d gid"
  "getOffersByIds (updateUserSession e j f d) ids = getOffersByIds d ids"
  "getOffersByGameId (updateUserSession e j f d) gid = getOffersByGameId d gid"
  by (simp_all add: getSelectedGame_def getGameByNumber_def getGameFields_def getOffersByIds_def
      getOffersByGameId_def split: option.splits)

lemma sessions_createRequest:
  "createRequest rid r d = Some d1 \<Longrightarrow> user_sessions d1 = user_sessions d"
  by (auto simp: createRequest_def split: option.splits if_splits)

subsection \<open>The end of the flow resets the session\<close>

lemma awaiting_screenshot_completion:
  assumes "sendMessage j (RequestSent rid) \<in> set (snd (awaiting_screenshot e msg j sess d))"
    and "user_sessions d j \<noteq> None"
  shows "\<exists>s. user_sessions (fst (awaiting_screenshot e msg j sess d)) j = Some s \<and> isReset s"
  using awaiting_screenshot_cases [of e msg j sess d] assms reset_row [of d j e]
  by auto

lemma handleClientMessage_completion:
  assumes sent: "sendMessage j (RequestSent rid) \<in> set (snd (handleClientMessage e msg j text d))"
  shows "\<exists>s. user_sessions (fst (handleClientMessage e msg j text d)) j = Some s \<and> isReset s"
proof -
  obtain sess d0 where g: "getUserSession j d = (sess, d0)"
    by (cases "getUserSession j d")
  have row: "user_sessions d0 j \<noteq> None"
    using getUserSession_row [of j d] g by simp
  let ?lower = "toLowerCase (trim text)"
  consider (kcancel) "?lower = js ''cancelar''"
    | (kback) "?lower \<noteq> js ''cancelar''" "?lower = js ''volver''"
    | (shot) "?lower \<noteq> js ''cancelar''" "?lower \<noteq> js ''volver''" "step sess = ''awaiting_screenshot''"
    | (other) "?lower \<noteq> js ''cancelar''" "?lower \<noteq> js ''volver''" "step sess \<noteq> ''awaiting_screenshot''"
    by blast
  then show ?thesis
  proof cases
    case kcancel
    then show ?thesis
      using sent by (simp add: handleClientMessage_def g sendMainMenu_no_confirmation)
  next
    case kback
    then show ?thesis
      using sent by (simp add: handleClientMessage_def g handleBack_quiet)
  next
    case shot
    then have "handleClientMessage e msg j text d = awaiting_screenshot e msg j sess d0"
      by (simp add: handleClientMessage_def g)
    then show ?thesis
      using awaiting_screenshot_completion [of j rid e msg sess d0] sent row by simp
  next
    case other
    then show ?thesis
      using sent
      by (simp add: handleClientMessage_def g sendMainMenu_no_confirmation
          awaiting_game_quiet awaiting_offer_quiet awaiting_payment_method_quiet
          awaiting_payment_choice_quiet split: if_splits)
  qed
qed

lemma handleClientMessage_cancel:
  assumes "toLowerCase (trim text) = js ''cancelar''"
  shows "\<exists>s. user_sessions (fst (handleClientMessage e msg j text d)) j = Some s \<and> isReset s"
proof -
  obtain sess d0 where g: "getUserSession j d = (sess, d0)"
    by (cases "getUserSession j d")
  have row: "user_sessions d0 j \<noteq> None"
    using getUserSession_row [of j d] g by simp
  show ?thesis
    using assms reset_row [OF row] by (simp add: handleClientMessage_def g)
qed

lemma sendMainMenu_no_confirmation2:
  "sendMessage j' (RequestSentFields rid) \<notin> set (sendMainMenu j d)"
  by (simp add: sendMainMenu_def sendMessage_def Let_def)

lemma sendRequestToAdmin_completion:
  assumes "sendMessage j (RequestSentFields rid) \<in> set (fst (snd (sendRequestToAdmin e j sess ids fv d)))"
    and "user_sessions d j \<noteq> None"
  shows "\<exists>s. user_sessions (fst (sendRequestToAdmin e j sess ids fv d)) j = Some s \<and> isReset2 s"
proof -
  from assms(1) obtain g d1 v where
    "getSelectedGame d (selected_game sess) = Some g"
    and c: "createRequest (Some (generateRequestId e))
              \<lparr>req_id = generateRequestId e, req_user_jid = j, req_game_name = game_name g,
               req_offer_desc = joinWith (js '', '') (map offer_description (getOffersByIds d ids)),
               req_payment_method = js ''pendiente'', req_payment_details = FieldValues fv,
               req_screenshot_url = None, req_status = ''pending'', req_completed_at = None\<rparr> d
            = Some d1"
    and "fv = Some v"
    and r: "fst (sendRequestToAdmin e j sess ids fv d) = updateUserSession e j resetSession2 d1"
    by (auto simp: sendRequestToAdmin_def Let_def split: option.splits)
  have "user_sessions d1 j \<noteq> None"
    using sessions_createRequest [OF c] assms(2) by simp
  then show ?thesis
    unfolding r by (rule reset2_row)
qed

lemma awaiting_game2_quiet:
  "sendMessage j' (RequestSentFields rid) \<notin> set (fst (snd (awaiting_game2 e j text d)))"
  by (simp add: awaiting_game2_def Let_def sendMessage_def sendWithCancelHint_def
      split: option.splits)

lemma handleBack2_quiet:
  "sendMessage j' (RequestSentFields rid) \<notin> set (fst (snd (handleBack2 e j sess d)))"
  by (simp add: handleBack2_def Let_def sendMessage_def sendWithCancelHint_def
      sendMainMenu_def split: option.splits)

lemma awaiting_offers_completion:
  assumes "sendMessage j (RequestSentFields rid) \<in> set (fst (snd (awaiting_offers e j text sess d)))"
    and row: "user_sessions d j \<noteq> None"
  shows "\<exists>s. user_sessions (fst (awaiting_offers e j text sess d)) j = Some s \<and> isReset2 s"
  using assms(1)
    sendRequestToAdmin_completion [OF _ updateUserSession_keeps_row [OF row], of rid e sess]
  by (auto simp: awaiting_offers_def Let_def sendMessage_def sendWithCancelHint_def
      split: option.splits sum.splits list.splits if_splits)

lemma awaiting_fields_completion:
  assumes "sendMessage j (RequestSentFields rid) \<in> set (fst (snd (awaiting_fields e j text sess d)))"
    and row: "user_sessions d j \<noteq> None"
  shows "\<exists>s. user_sessions (fst (awaiting_fields e j text sess d)) j = Some s \<and> isReset2 s"
  using assms(1)
    sendRequestToAdmin_completion [OF _ updateUserSession_keeps_row [OF row], of rid e sess]
    sendRequestToAdmin_completion [OF _ row, of rid e sess]
  by (auto simp: awaiting_fields_def Let_def sendMessage_def sendWithCancelHint_def
      split: option.splits if_splits)

lemma handleClientMessage2_completion:
  assumes sent: "sendMessage j (RequestSentFields rid)
      \<in> set (fst (snd (handleClientMessage2 e msg j text d)))"
  shows "\<exists>s. user_sessions (fst (handleClientMessage2 e msg j text d)) j = Some s \<and> isReset2 s"
proof -
  obtain sess d0 where g: "getUserSession2 j d = (sess, d0)"
    by (cases "getUserSession2 j d")
  have row: "user_sessions d0 j \<noteq> None"
    using getUserSession2_row [of j d] g by simp
  show ?thesis
    using sent row awaiting_offers_completion [of j rid e "text" sess d0]
      awaiting_fields_completion [of j rid e "text" sess d0]
    by (simp add: handleClientMessage2_def g Let_def sendMainMenu_no_confirmation2
        awaiting_game2_quiet handleBack2_quiet split: if_splits)
qed

lemma handleClientMessage2_cancel:
  assumes "toLowerCase (trim text) = js ''cancelar''"
  shows "\<exists>s. user_sessions (fst (handleClientMessage2 e msg j text d)) j = Some s \<and> isReset2 s"
proof -
  obtain sess d0 where g: "getUserSession2 j d = (sess, d0)"
    by (cases "getUserSession2 j d")
  have row: "user_sessions d0 j \<noteq> None"
    using getUserSession2_row [of j d] g by simp
  show ?thesis
    using assms reset2_row [OF row] by (simp add: handleClientMessage2_def g Let_def)
qed

text \<open>
  Claim C2.  In either variant of the client flow and from any step, a message whose
  trimmed lower-case text is \<open>cancelar\<close>, and likewise a message that completes the flow
  (the confirmation of the request goes out to the user), leaves the session of the user
  idle with every selection column \<open>null\<close>.
\<close>

theorem cancel_and_completion_reset:
  "(toLowerCase (trim text) = js ''cancelar''
      \<or> sendMessage j (RequestSent rid) \<in> set (snd (handleClientMessage e msg j text d))
    \<longrightarrow> (\<exists>s. user_sessions (fst (handleClientMessage e msg j text d)) j = Some s \<and> isReset s))
   \<and> (toLowerCase (trim text) = js ''cancelar''
      \<or> sendMessage j (RequestSentFields rid) \<in> set (fst (snd (handleClientMessage2 e msg j text d2)))
    \<longrightarrow> (\<exists>s. user_sessions (fst (handleClientMessage2 e msg j text d2)) j = Some s \<and> isReset2 s))"
  using handleClientMessage_cancel [of "text" e msg j d]
    handleClientMessage_completion [of j rid e msg "text" d]
    handleClientMessage2_cancel [of "text" e msg j d2]
    handleClientMessage2_completion [of j rid e msg "text" d2]
  by blast

section \<open>Evaluating the flows on the example data\<close>

lemma text_12345:
  "\<not> containsOfertas exampleEnv (js ''12345'')"
  "toLowerCase (trim (js ''12345'')) \<noteq> js ''cancelar''"
  "toLowerCase (trim (js ''12345'')) \<noteq> js ''volver''"
  by code_simp+

lemma text_cancelar:
  "toLowerCase (trim (js '' Cancelar '')) = js ''cancelar''"
  by code_simp


lemma text_ofert:
  "containsOfertas exampleEnv (js ''ofert'')"
  "\<not> includesStr (js ''ofert'') (js ''oferta'')"
  "containsOfertas exampleEnv (js ''Quiero OFERTAS'')"
  "containsOfertas exampleEnv [0x4F, 0x66, 0xE9, 0x72, 0x74, 0x61, 0x73]"
  "\<not> containsOfertas exampleEnv (js ''hola'')"
  by code_simp+

lemma exampleEnv_sel:
  "ADMIN_JID exampleEnv = adminJid"
  "now exampleEnv = 1700"
  "generateRequestId exampleEnv = js ''REQ-1700-7''"
  "uploadScreenshot exampleEnv = Some (js ''https://cdn/REQ-1700-7.png'')"
  "unicodeLower exampleEnv = toLowerCase"
  "unicodeNFD exampleEnv = latin1NFD"
  by (simp_all add: exampleEnv_def)

lemmas example_defs =
  exampleEnv_sel exampleDb_def exampleSession_def exampleSession2_def exampleOffer_def
  exampleRequest_def textMessage_def imageOnly_def

lemmas read_defs =
  getSelectedGame_def getGameByNumber_def getOffersByGameId_def getOfferByGameAndNumber_def
  getOfferById_def getOffersByIds_def getPaymentMethods_def getPaymentMethodByNumber_def
  getGameFields_def getRequest_def getSelectedOffer_def getSelectedMethod_def

lemma example_fields_run:
  "handleClientMessage2 exampleEnv textMessage userJid (js ''12345'')
     (exampleDb [userJid \<mapsto> exampleSession2 ''awaiting_fields'' 2] [])
   = (updateUserSession exampleEnv userJid resetSession2
        (updateUserSession exampleEnv userJid (\<lambda>s. s\<lparr>field_values := Some [(js ''player id'', js ''12345'')]\<rparr>)
          (exampleDb [userJid \<mapsto> exampleSession2 ''awaiting_fields'' 2]
             [\<lparr>req_id = js ''REQ-1700-7'', req_user_jid = userJid, req_game_name = js ''Game B'',
               req_offer_desc = js ''W'', req_payment_method = js ''pendiente'',
               req_payment_details = FieldValues (Some [(js ''player id'', js ''12345'')]),
               req_screenshot_url = None, req_status = ''pending'', req_completed_at = None\<rparr>])),
      [sendMessage adminJid
         (NewRequestFields userJid (js ''Game B'') [exampleOffer 21 2 1 ''W'']
            [(js ''player id'', js ''12345'')] (js ''REQ-1700-7'')),
       sendMessage userJid (RequestSentFields (js ''REQ-1700-7''))],
      Returned)"
  by (simp add: handleClientMessage2_def getUserSession2_def text_12345 awaiting_fields_def
      sendRequestToAdmin_def createRequest_def updateUserSession_def example_defs read_defs Let_def)

theorem cancel_and_completion_reset_witness:
  "(\<exists>s. user_sessions
          (fst (handleClientMessage exampleEnv textMessage userJid (js '' Cancelar '')
                 (exampleDb [userJid \<mapsto> exampleSession ''awaiting_payment_choice''] [])))
          userJid = Some s \<and> isReset s)
   \<and> (\<exists>s. user_sessions
          (fst (handleClientMessage exampleEnv imageOnly userJid []
                 (exampleDb [userJid \<mapsto> exampleSession ''awaiting_screenshot''] [])))
          userJid = Some s \<and> isReset s)
   \<and> (\<exists>s. user_sessions
          (fst (handleClientMessage2 exampleEnv textMessage userJid (js '' Cancelar '')
                 (exampleDb [userJid \<mapsto> exampleSession2 ''awaiting_fields'' 2] [])))
          userJid = Some s \<and> isReset2 s)
   \<and> (\<exists>s. user_sessions
          (fst (handleClientMessage2 exampleEnv textMessage userJid (js ''12345'')
                 (exampleDb [userJid \<mapsto> exampleSession2 ''awaiting_fields'' 2] [])))
          userJid = Some s \<and> isReset2 s)"
proof -
  note t = cancel_and_completion_reset
  have sent: "sendMessage userJid (RequestSent (js ''REQ-1700-7''))
      \<in> set (snd (handleClientMessage exampleEnv imageOnly userJid []
            (exampleDb [userJid \<mapsto> exampleSession ''awaiting_screenshot''] [])))"
    by (simp add: example_screenshot_run)
  have sent2: "sendMessage userJid (RequestSentFields (js ''REQ-1700-7''))
      \<in> set (fst (snd (handleClientMessage2 exampleEnv textMessage userJid (js ''12345'')
            (exampleDb [userJid \<mapsto> exampleSession2 ''awaiting_fields'' 2] []))))"
    by (simp add: example_fields_run)
  have a: "\<exists>s. user_sessions
          (fst (handleClientMessage exampleEnv textMessage userJid (js '' Cancelar '')
                 (exampleDb [userJid \<mapsto> exampleSession ''awaiting_payment_choice''] [])))
          userJid = Some s \<and> isReset s"
    using t [THEN conjunct1, THEN mp, OF disjI1, OF text_cancelar] .
  have b: "\<exists>s. user_sessions
          (fst (handleClientMessage exampleEnv imageOnly userJid []
                 (exampleDb [userJid \<mapsto> exampleSession ''awaiting_screenshot''] [])))
          userJid = Some s \<and> isReset s"
    using t [THEN conjunct1, THEN mp, OF disjI2, OF sent] .
  have c: "\<exists>s. user_sessions
          (fst (handleClientMessage2 exampleEnv textMessage userJid (js '' Cancelar '')
                 (exampleDb [userJid \<mapsto> exampleSession2 ''awaiting_fields'' 2] [])))
          userJid = Some s \<and> isReset2 s"
    using t [THEN conjunct2, THEN mp, OF disjI1, OF text_cancelar] .
  have d: "\<exists>s. user_sessions
          (fst (handleClientMessage2 exampleEnv textMessage userJid (js ''12345'')
                 (exampleDb [userJid \<mapsto> exampleSession2 ''awaiting_fields'' 2] [])))
          userJid = Some s \<and> isReset2 s"
    using t [THEN conjunct2, THEN mp, OF disjI2, OF sent2] .
  from a b c d show ?thesis by blast
qed

subsection \<open>The selection of offers\<close>


lemma firstInvalid_resolveOffers:
  "resolveOffers os nums = Inl bad \<Longrightarrow> firstInvalid os nums = Some bad"
  by (induction nums) (auto simp: firstInvalid_def split: option.splits sum.splits)








lemma example_step2: "step (exampleSession2 st g) = st"
  by (simp add: exampleSession2_def)






section \<open>After the selection of offers\<close>







section \<open>The trigger on the word for offers\<close>

lemma startsWith_append: "startsWith s (p @ q) \<Longrightarrow> startsWith s p"
  by (induction s p rule: startsWith.induct) auto

lemma includesStr_append: "includesStr s (p @ q) \<Longrightarrow> includesStr s p"
  by (induction s) (auto dest: startsWith_append)

lemma oferta_ofert: "includesStr s (js ''oferta'') \<Longrightarrow> includesStr s (js ''ofert'')"
  using includesStr_append [of s "js ''ofert''" "js ''a''"] by (simp add: js_def)

lemma ofertasRegex_ofert: "ofertasRegex s \<longleftrightarrow> includesStr s (js ''ofert'')"
  using oferta_ofert by (auto simp: ofertasRegex_def)

text \<open>The tables decide for a text outside Latin-1: with \<open>o\<close> under a macron (U+014D),
  which the runtime leaves in lower case and decomposes into \<open>o\<close> and U+0304, the text is
  taken by the trigger.\<close>

lemma containsOfertas_macron:
  assumes "unicodeLower e (0x14D # js ''ferta'') = 0x14D # js ''ferta''"
    and "unicodeNFD e (0x14D # js ''ferta'') = 0x6F # 0x304 # js ''ferta''"
  shows "containsOfertas e (0x14D # js ''ferta'')"
proof -
  have "ofertasRegex (js ''oferta'')"
    by code_simp
  with assms show ?thesis
    by (simp add: containsOfertas_def Let_def js_def)
qed

text \<open>
  Claim C8, as amended.  The trigger is the expression \<open>/oferta(s)?|oferts?/\<close> on the
  text in lower case, decomposed, without its combining marks U+0300 to U+036F, which is
  to contain \<open>ofert\<close>; this holds whatever the two tables of the runtime are.  With a
  session that is not idle, a text that matches resets the session and sends the main
  menu; with an idle session the trigger does not fire (nothing is written, the main menu
  is sent); a text that does not match never triggers: the message goes to the step of the
  session.
\<close>

theorem ofertas_trigger:
  "(containsOfertas e text \<longleftrightarrow>
      text \<noteq> [] \<and>
      includesStr (filter (\<lambda>c. \<not> (0x300 \<le> c \<and> c \<le> 0x36F)) (unicodeNFD e (unicodeLower e text)))
        (js ''ofert''))
   \<and> (user_sessions d j = Some sess \<and> step sess \<noteq> ''idle'' \<and> containsOfertas e text
      \<longrightarrow> handleClientMessage2 e msg j text d
            = (updateUserSession e j resetSession2 d, sendMainMenu j d, Returned)
        \<and> (\<exists>s. user_sessions (fst (handleClientMessage2 e msg j text d)) j = Some s \<and> isReset2 s))
   \<and> (user_sessions d j = Some sess \<and> step sess = ''idle''
        \<and> toLowerCase (trim text) \<noteq> js ''cancelar''
      \<longrightarrow> handleClientMessage2 e msg j text d = (d, sendMainMenu j d, Returned))
   \<and> (user_sessions d j = Some sess \<and> \<not> containsOfertas e text
        \<and> toLowerCase (trim text) \<noteq> js ''cancelar'' \<and> toLowerCase (trim text) \<noteq> js ''volver''
      \<longrightarrow> handleClientMessage2 e msg j text d
            = (if step sess = ''idle'' then (d, sendMainMenu j d, Returned)
               else if step sess = ''awaiting_game'' then awaiting_game2 e j text d
               else if step sess = ''awaiting_offers'' then awaiting_offers e j text sess d
               else if step sess = ''awaiting_fields'' then awaiting_fields e j text sess d
               else (d, sendMainMenu j d, Returned)))"
proof (intro conjI impI)
  show "containsOfertas e text \<longleftrightarrow>
      text \<noteq> [] \<and>
      includesStr (filter (\<lambda>c. \<not> (0x300 \<le> c \<and> c \<le> 0x36F)) (unicodeNFD e (unicodeLower e text)))
        (js ''ofert'')"
    by (simp add: containsOfertas_def Let_def ofertasRegex_ofert)
next
  assume a: "user_sessions d j = Some sess \<and> step sess \<noteq> ''idle'' \<and> containsOfertas e text"
  then show r: "handleClientMessage2 e msg j text d
            = (updateUserSession e j resetSession2 d, sendMainMenu j d, Returned)"
    by (simp add: handleClientMessage2_def getUserSession2_existing Let_def)
  from a have "user_sessions d j \<noteq> None"
    by simp
  then show "\<exists>s. user_sessions (fst (handleClientMessage2 e msg j text d)) j = Some s \<and> isReset2 s"
    unfolding r fst_conv by (rule reset2_row)
next
  assume "user_sessions d j = Some sess \<and> step sess = ''idle''
        \<and> toLowerCase (trim text) \<noteq> js ''cancelar''"
  then show "handleClientMessage2 e msg j text d = (d, sendMainMenu j d, Returned)"
    by (simp add: handleClientMessage2_def getUserSession2_existing Let_def handleBack2_def)
next
  assume "user_sessions d j = Some sess \<and> \<not> containsOfertas e text
        \<and> toLowerCase (trim text) \<noteq> js ''cancelar'' \<and> toLowerCase (trim text) \<noteq> js ''volver''"
  then show "handleClientMessage2 e msg j text d
            = (if step sess = ''idle'' then (d, sendMainMenu j d, Returned)
               else if step sess = ''awaiting_game'' then awaiting_game2 e j text d
               else if step sess = ''awaiting_offers'' then awaiting_offers e j text sess d
               else if step sess = ''awaiting_fields'' then awaiting_fields e j text sess d
               else (d, sendMainMenu j d, Returned))"
    by (simp add: handleClientMessage2_def getUserSession2_existing Let_def)
qed

text \<open>Claim C8 as stated fails: the text \<open>ofert\<close> does not contain \<open>oferta\<close>, and it
  resets a session that is selecting offers.\<close>

theorem ofert_alone_triggers:
  "\<not> includesStr (js ''ofert'') (js ''oferta'')
   \<and> containsOfertas exampleEnv (js ''ofert'')
   \<and> map_option step
        (user_sessions
           (fst (handleClientMessage2 exampleEnv textMessage userJid (js ''ofert'')
                  (exampleDb [userJid \<mapsto> exampleSession2 ''awaiting_offers'' 1] [])))
           userJid)
      = Some ''idle''
   \<and> map_option selected_game
        (user_sessions
           (fst (handleClientMessage2 exampleEnv textMessage userJid (js ''ofert'')
                  (exampleDb [userJid \<mapsto> exampleSession2 ''awaiting_offers'' 1] [])))
           userJid)
      = Some None"
  by (simp add: text_ofert handleClientMessage2_def getUserSession2_def updateUserSession_def
      resetSession2_def example_defs Let_def)

lemma text_hola2: "\<not> containsOfertas exampleEnv (js ''hola'')" "toLowerCase (trim (js ''ofert'')) \<noteq> js ''cancelar''"
  by code_simp+

theorem ofertas_trigger_witness:
  "handleClientMessage2 exampleEnv textMessage userJid [0x4F, 0x66, 0xE9, 0x72, 0x74, 0x61, 0x73]
     (exampleDb [userJid \<mapsto> exampleSession2 ''awaiting_fields'' 2] [])
   = (updateUserSession exampleEnv userJid resetSession2
        (exampleDb [userJid \<mapsto> exampleSession2 ''awaiting_fields'' 2] []),
      sendMainMenu userJid (exampleDb [userJid \<mapsto> exampleSession2 ''awaiting_fields'' 2] []),
      Returned)
   \<and> handleClientMessage2 exampleEnv textMessage userJid (js ''ofert'')
       (exampleDb [userJid \<mapsto> exampleSession2 ''idle'' 1] [])
     = (exampleDb [userJid \<mapsto> exampleSession2 ''idle'' 1] [],
        sendMainMenu userJid (exampleDb [userJid \<mapsto> exampleSession2 ''idle'' 1] []), Returned)
   \<and> handleClientMessage2 exampleEnv textMessage userJid (js ''hola'')
       (exampleDb [userJid \<mapsto> exampleSession2 ''awaiting_game'' 1] [])
     = awaiting_game2 exampleEnv userJid (js ''hola'')
         (exampleDb [userJid \<mapsto> exampleSession2 ''awaiting_game'' 1] [])"
proof -
  note t = ofertas_trigger [where e = exampleEnv and msg = textMessage and j = userJid]
  have a: "user_sessions (exampleDb [userJid \<mapsto> exampleSession2 ''awaiting_fields'' 2] []) userJid
             = Some (exampleSession2 ''awaiting_fields'' 2)
           \<and> step (exampleSession2 ''awaiting_fields'' 2) \<noteq> ''idle''
           \<and> containsOfertas exampleEnv [0x4F, 0x66, 0xE9, 0x72, 0x74, 0x61, 0x73]"
    by (simp add: example_session example_step2 text_ofert)
  have b: "user_sessions (exampleDb [userJid \<mapsto> exampleSession2 ''idle'' 1] []) userJid
             = Some (exampleSession2 ''idle'' 1)
           \<and> step (exampleSession2 ''idle'' 1) = ''idle''
           \<and> toLowerCase (trim (js ''ofert'')) \<noteq> js ''cancelar''"
    by (simp add: example_session example_step2 text_hola2)
  have c: "user_sessions (exampleDb [userJid \<mapsto> exampleSession2 ''awaiting_game'' 1] []) userJid
             = Some (exampleSession2 ''awaiting_game'' 1)
           \<and> \<not> containsOfertas exampleEnv (js ''hola'')
           \<and> toLowerCase (trim (js ''hola'')) \<noteq> js ''cancelar''
           \<and> toLowerCase (trim (js ''hola'')) \<noteq> js ''volver''"
    by (simp add: example_session text_hola2 hola)
  from t [THEN conjunct2, THEN conjunct1, THEN mp, OF a, THEN conjunct1]
    t [THEN conjunct2, THEN conjunct2, THEN conjunct1, THEN mp, OF b]
    t [THEN conjunct2, THEN conjunct2, THEN conjunct2, THEN mp, OF c]
  show ?thesis
    by (simp add: example_step2)
qed

section \<open>The bulk dialogs of the operator\<close>

subsection \<open>The bulk product table\<close>





lemma js_Nil [simp]: "js s = [] \<longleftrightarrow> s = []"
  by (simp add: js_def)




lemma prompt_line:
  "toLowerCase promptExampleLine \<noteq> js ''/fin''"
  "split isWhiteSpace (trim promptExampleLine)
   = [[0x31, 0xFE0F, 0x20E3], js ''110'', [0xD83D, 0xDC8E], js ''250'', js ''700'']"
  "emojiToNumber [0x31, 0xFE0F, 0x20E3] = Some 1"
  "parseInt [0xD83D, 0xDC8E] = None"
  "parseInt (js ''250'') = Some 250"
  by code_simp+

lemma overflow_small: "\<bar>v\<bar> < 2 ^ 64 \<Longrightarrow> overflow v = Finite v"
proof -
  assume "\<bar>v\<bar> < 2 ^ 64"
  moreover have "(2::rat) ^ 64 \<le> 2 ^ 1024 - 2 ^ 970"
  proof -
    have "(2::rat) ^ 970 \<le> 2 ^ 1023" by (rule power_increasing) simp_all
    moreover have "(2::rat) ^ 64 \<le> 2 ^ 1023" by (rule power_increasing) simp_all
    moreover have "(2::rat) ^ 1024 = 2 * 2 ^ 1023" by simp
    ultimately show ?thesis by linarith
  qed
  ultimately show ?thesis
    by (simp add: overflow_def)
qed

lemma prompt_line_usd:
  "parseFloat (js ''700'') = Finite 700"
  "isFinite (js ''700'')"
  by (simp_all add: parseFloat_def isFinite_def toNumber_def scanDecimal_def scanExponent_def
      dropSign_def signOf_def isSign_def prefixBase_def trim_def isWhiteSpace_def js_def
      isDigit_def parseDecimal_def digitValue_def overflow_small Let_def)

lemma joinWith_single: "joinWith sep [x] = x"
  by simp

text \<open>
  Claim C7.  The code does not do what the claim says: once a line has four tokens the
  branch that rejects its prices is never taken, and the two tokens before the USD price
  are not checked.  The example line of the prompt itself is accepted, with \<open>700\<close> as the
  USD price, \<open>250\<close> as the card price and \<open>NaN\<close> (the gem glyph) as the mobile price.
\<close>

theorem documented_offer_line_accepted:
  "parseOfferTail number (p0 # p1 # p2 # p3 # ps) \<noteq> None
   \<and> parseInt [0xD83D, 0xDC8E] = None
   \<and> handleAddOffersDialog j
        \<lparr>dlg_command = c, dlg_step = 1, dlg_data = OffersData gameId gameNumber offs\<rparr>
        promptExampleLine d
     = (setAdminDialog j c 1
          (OffersData gameId gameNumber
             (offs @ [\<lparr>oe_number = 1, oe_desc = js ''110'', oe_mobile = None,
                       oe_card = Some 250, oe_usd = Some 700\<rparr>])) d,
        [sendMessage j (OfferAdded (js ''110''))], Handled True)"
proof (intro conjI)
  show "parseOfferTail number (p0 # p1 # p2 # p3 # ps) \<noteq> None"
    by (simp add: parseOfferTail_def Let_def)
  show "parseInt [0xD83D, 0xDC8E] = None"
    by (rule prompt_line)
  have tail: "parseOfferTail n [[0x31, 0xFE0F, 0x20E3], js ''110'', [0xD83D, 0xDC8E], js ''250'', js ''700'']
      = Some \<lparr>oe_number = n, oe_desc = js ''110'', oe_mobile = None, oe_card = Some 250,
               oe_usd = Some 700\<rparr>" for n
    by (simp add: parseOfferTail_def Let_def prompt_line prompt_line_usd isNaN_def)
  show "handleAddOffersDialog j
        \<lparr>dlg_command = c, dlg_step = 1, dlg_data = OffersData gameId gameNumber offs\<rparr>
        promptExampleLine d
     = (setAdminDialog j c 1
          (OffersData gameId gameNumber
             (offs @ [\<lparr>oe_number = 1, oe_desc = js ''110'', oe_mobile = None,
                       oe_card = Some 250, oe_usd = Some 700\<rparr>])) d,
        [sendMessage j (OfferAdded (js ''110''))], Handled True)"
    by (simp add: handleAddOffersDialog_def prompt_line tail Let_def)
qed

end
